theory Spec2Isabelle
  imports Complex_Main "HOL-Library.Sublist"
begin

section \<open>Technical-analysis engine (utils/technical\_indicators.py)\<close>

text \<open>
  The engine works on pandas columns of 64-bit floats. The model keeps the special values
  of that arithmetic (not-a-number and the two infinities) as constructors and computes
  on the finite values exactly, with real numbers: rounding and the sign of zero are not
  part of the model, except in the clustering of price levels, whose result depends on the
  rounding and is modelled with it. Every comparison with \<open>NaN\<close> is false, as in
  the source.
\<close>

subsection \<open>Numbers\<close>

datatype fl = Fin real | PInf | NInf | NaN

fun isna :: "fl \<Rightarrow> bool" where
  "isna NaN = True"
| "isna _ = False"

fun fl_neg :: "fl \<Rightarrow> fl" where
  "fl_neg (Fin a) = Fin (- a)"
| "fl_neg PInf = NInf"
| "fl_neg NInf = PInf"
| "fl_neg NaN = NaN"

fun fl_add :: "fl \<Rightarrow> fl \<Rightarrow> fl" where
  "fl_add NaN _ = NaN"
| "fl_add _ NaN = NaN"
| "fl_add (Fin a) (Fin b) = Fin (a + b)"
| "fl_add (Fin a) PInf = PInf"
| "fl_add (Fin a) NInf = NInf"
| "fl_add PInf (Fin b) = PInf"
| "fl_add NInf (Fin b) = NInf"
| "fl_add PInf PInf = PInf"
| "fl_add NInf NInf = NInf"
| "fl_add PInf NInf = NaN"
| "fl_add NInf PInf = NaN"

definition fl_sub :: "fl \<Rightarrow> fl \<Rightarrow> fl" where
  "fl_sub a b = fl_add a (fl_neg b)"

text \<open>The sign of a value: \<open>1\<close>, \<open>0\<close> or \<open>-1\<close>; \<open>NaN\<close> has none.\<close>

fun fl_sign :: "fl \<Rightarrow> int option" where
  "fl_sign (Fin a) = Some (if 0 < a then 1 else if a < 0 then - 1 else 0)"
| "fl_sign PInf = Some 1"
| "fl_sign NInf = Some (- 1)"
| "fl_sign NaN = None"

definition inf_of_sign :: "int \<Rightarrow> fl" where
  "inf_of_sign s = (if 0 < s then PInf else if s < 0 then NInf else NaN)"

fun fl_mul :: "fl \<Rightarrow> fl \<Rightarrow> fl" where
  "fl_mul (Fin a) (Fin b) = Fin (a * b)"
| "fl_mul a b =
     (case (fl_sign a, fl_sign b) of
        (Some s, Some t) \<Rightarrow> inf_of_sign (s * t)
      | _ \<Rightarrow> NaN)"

text \<open>
  Division of floats never raises: a finite non-zero value over zero is an infinity,
  zero over zero and infinity over infinity are \<open>NaN\<close>, a finite value over an infinity
  is zero.
\<close>

fun fl_div :: "fl \<Rightarrow> fl \<Rightarrow> fl" where
  "fl_div NaN _ = NaN"
| "fl_div _ NaN = NaN"
| "fl_div (Fin a) (Fin b) =
     (if b \<noteq> 0 then Fin (a / b)
      else if 0 < a then PInf else if a < 0 then NInf else NaN)"
| "fl_div (Fin a) PInf = Fin 0"
| "fl_div (Fin a) NInf = Fin 0"
| "fl_div PInf (Fin b) = (if b < 0 then NInf else PInf)"
| "fl_div NInf (Fin b) = (if b < 0 then PInf else NInf)"
| "fl_div PInf PInf = NaN"
| "fl_div PInf NInf = NaN"
| "fl_div NInf PInf = NaN"
| "fl_div NInf NInf = NaN"

fun fl_less :: "fl \<Rightarrow> fl \<Rightarrow> bool" where
  "fl_less NaN _ = False"
| "fl_less _ NaN = False"
| "fl_less (Fin a) (Fin b) = (a < b)"
| "fl_less (Fin a) PInf = True"
| "fl_less (Fin a) NInf = False"
| "fl_less PInf _ = False"
| "fl_less NInf NInf = False"
| "fl_less NInf _ = True"

fun fl_le :: "fl \<Rightarrow> fl \<Rightarrow> bool" where
  "fl_le NaN _ = False"
| "fl_le _ NaN = False"
| "fl_le (Fin a) (Fin b) = (a \<le> b)"
| "fl_le (Fin a) PInf = True"
| "fl_le (Fin a) NInf = False"
| "fl_le PInf PInf = True"
| "fl_le PInf _ = False"
| "fl_le NInf _ = True"

subsection \<open>Text\<close>

text \<open>Decimal text of a Python integer, as an f-string prints it.\<close>

definition digit_char :: "nat \<Rightarrow> char" where
  "digit_char d = char_of (48 + d)"

fun show_nat :: "nat \<Rightarrow> string" where
  "show_nat n = (if n < 10 then [digit_char n] else show_nat (n div 10) @ [digit_char (n mod 10)])"

declare show_nat.simps [simp del]

definition show_int :: "int \<Rightarrow> string" where
  "show_int i = (if i < 0 then CHR ''-'' # show_nat (nat (- i)) else show_nat (nat i))"

text \<open>Python's \<open>a in b\<close> on strings: \<open>a\<close> occurs in \<open>b\<close> as a contiguous run.\<close>

definition str_in :: "string \<Rightarrow> string \<Rightarrow> bool" where
  "str_in a b = sublist a b"

text \<open>
  \<open>f"{pct:.0f}"\<close>: the value rounded to the nearest integer, a tie going to the even
  one, and the words \<open>nan\<close>, \<open>inf\<close>, \<open>-inf\<close> for the special values.
\<close>

definition round_half_even :: "real \<Rightarrow> int" where
  "round_half_even x =
     (let f = \<lfloor>x\<rfloor>; d = x - of_int f
      in if d < 1 / 2 then f
         else if 1 / 2 < d then f + 1
         else if even f then f else f + 1)"

fun format_0f :: "fl \<Rightarrow> string" where
  "format_0f NaN = ''nan''"
| "format_0f PInf = ''inf''"
| "format_0f NInf = ''-inf''"
| "format_0f (Fin x) = show_int (round_half_even x)"

subsection \<open>Interpretation text\<close>

fun interpret_rsi :: "fl \<Rightarrow> string" where
  "interpret_rsi rsi_value =
     (if isna rsi_value then ''Insufficient data''
      else if fl_less (Fin 70) rsi_value then ''Overbought - Consider selling''
      else if fl_less rsi_value (Fin 30) then ''Oversold - Consider buying''
      else if fl_less (Fin 50) rsi_value then ''Bullish momentum''
      else ''Bearish momentum'')"

fun interpret_macd :: "real \<Rightarrow> string" where
  "interpret_macd histogram =
     (if histogram > 0 then ''Bullish momentum - MACD above signal''
      else if histogram < 0 then ''Bearish momentum - MACD below signal''
      else ''Neutral'')"

definition interpret_bb :: "real \<Rightarrow> fl \<Rightarrow> fl \<Rightarrow> string" where
  "interpret_bb price upper lower =
     (if fl_le upper (Fin price) then ''Price at upper band - Overbought condition''
      else if fl_le (Fin price) lower then ''Price at lower band - Oversold condition''
      else
        (let pct = fl_mul (fl_div (fl_sub (Fin price) lower) (fl_sub upper lower)) (Fin 100)
         in ''Price at '' @ format_0f pct @ ''% of band range''))"

subsection \<open>The result of an analysis\<close>

record rsi_info =
  rsi_value :: fl
  rsi_signal :: string
  rsi_interpretation :: string

record macd_info =
  macd_macd_line :: real
  macd_signal_line :: real
  macd_histogram :: real
  macd_signal :: string
  macd_interpretation :: string

record bb_info =
  bb_upper :: fl
  bb_middle :: fl
  bb_lower :: fl
  bb_width :: fl
  bb_signal :: string
  bb_interpretation :: string

record sr_info =
  sr_support_levels :: "real list"
  sr_resistance_levels :: "real list"
  sr_nearest_support :: "real option"
  sr_nearest_resistance :: "real option"
  sr_current_price :: real

record volume_info =
  vol_current_volume :: int
  vol_avg_volume :: fl
  vol_volume_trend :: string
  vol_obv :: int
  vol_recent_spikes :: nat

record pattern_event =
  pe_date :: int
  pe_pattern :: string
  pe_type :: string
  pe_description :: string

record recommendation =
  rec_action :: string
  rec_confidence :: int
  rec_reason :: string

text \<open>
  The dictionary \<open>results\<close> before the key \<open>recommendation\<close> is added, and the
  dictionary that \<open>calculate_all_indicators\<close> returns.
\<close>

record results =
  res_current_price :: real
  res_trend :: string
  res_rsi :: rsi_info
  res_macd :: macd_info
  res_bollinger_bands :: bb_info
  res_support_resistance :: sr_info
  res_volume :: volume_info
  res_patterns :: "pattern_event list"
  res_sma_20 :: fl
  res_sma_50 :: fl

record analysis_result = results +
  res_recommendation :: recommendation

subsection \<open>The recommendation\<close>

text \<open>The two counters of \<open>_generate_recommendation\<close> after the five scoring steps.\<close>

definition signal_counts :: "'a results_scheme \<Rightarrow> int \<times> int" where
  "signal_counts res =
     (let buy_signals = 0; sell_signals = 0;
          (buy_signals, sell_signals) =
            (if rsi_signal (res_rsi res) = ''Oversold'' then (buy_signals + 2, sell_signals)
             else if rsi_signal (res_rsi res) = ''Overbought'' then (buy_signals, sell_signals + 2)
             else (buy_signals, sell_signals));
          (buy_signals, sell_signals) =
            (if macd_signal (res_macd res) = ''Buy'' then (buy_signals + 2, sell_signals)
             else if macd_signal (res_macd res) = ''Sell'' then (buy_signals, sell_signals + 2)
             else (buy_signals, sell_signals));
          (buy_signals, sell_signals) =
            (if bb_signal (res_bollinger_bands res) = ''Oversold'' then (buy_signals + 1, sell_signals)
             else if bb_signal (res_bollinger_bands res) = ''Overbought'' then (buy_signals, sell_signals + 1)
             else (buy_signals, sell_signals));
          (buy_signals, sell_signals) =
            (if str_in ''Uptrend'' (res_trend res) then (buy_signals + 1, sell_signals)
             else if str_in ''Downtrend'' (res_trend res) then (buy_signals, sell_signals + 1)
             else (buy_signals, sell_signals));
          buy_signals =
            (if vol_volume_trend (res_volume res) = ''Increasing'' \<and> buy_signals > sell_signals
             then buy_signals + 1 else buy_signals)
      in (buy_signals, sell_signals))"

definition generate_recommendation :: "'a results_scheme \<Rightarrow> recommendation" where
  "generate_recommendation res =
     (let (buy_signals, sell_signals) = signal_counts res
      in if buy_signals > sell_signals + 2 then
           \<lparr>rec_action = ''Strong Buy'',
            rec_confidence = min 95 (buy_signals * 15),
            rec_reason = ''Multiple bullish signals detected ('' @ show_int buy_signals @ '' buy vs ''
                       @ show_int sell_signals @ '' sell signals)''\<rparr>
         else if buy_signals > sell_signals then
           \<lparr>rec_action = ''Buy'',
            rec_confidence = min 80 (buy_signals * 12),
            rec_reason = ''Bullish indicators outweigh bearish ('' @ show_int buy_signals @ '' buy vs ''
                       @ show_int sell_signals @ '' sell signals)''\<rparr>
         else if sell_signals > buy_signals + 2 then
           \<lparr>rec_action = ''Strong Sell'',
            rec_confidence = min 95 (sell_signals * 15),
            rec_reason = ''Multiple bearish signals detected ('' @ show_int sell_signals @ '' sell vs ''
                       @ show_int buy_signals @ '' buy signals)''\<rparr>
         else if sell_signals > buy_signals then
           \<lparr>rec_action = ''Sell'',
            rec_confidence = min 80 (sell_signals * 12),
            rec_reason = ''Bearish indicators outweigh bullish ('' @ show_int sell_signals @ '' sell vs ''
                       @ show_int buy_signals @ '' buy signals)''\<rparr>
         else
           \<lparr>rec_action = ''Hold'',
            rec_confidence = 50,
            rec_reason = ''Mixed signals - Wait for clearer trend''\<rparr>)"

subsection \<open>Errors\<close>

text \<open>The exceptions the engine can raise; a raise is the left summand of the result.\<close>

datatype error = IndexError | KeyError | ValueError

definition ebind :: "error + 'a \<Rightarrow> ('a \<Rightarrow> error + 'b) \<Rightarrow> error + 'b" where
  "ebind m k = (case m of Inl e \<Rightarrow> Inl e | Inr x \<Rightarrow> k x)"

text \<open>\<open>series.iloc[-1]\<close> raises on an empty series.\<close>

definition iloc_last :: "'a list \<Rightarrow> error + 'a" where
  "iloc_last xs = (if xs = [] then Inl IndexError else Inr (last xs))"

text \<open>\<open>frame[name]\<close> raises when the column is absent.\<close>

definition column :: "'a option \<Rightarrow> error + 'a" where
  "column c = (case c of None \<Rightarrow> Inl KeyError | Some xs \<Rightarrow> Inr xs)"

text \<open>The slice \<open>xs[-k:]\<close>.\<close>

definition last_n :: "nat \<Rightarrow> 'a list \<Rightarrow> 'a list" where
  "last_n k xs = drop (length xs - k) xs"

subsection \<open>The data frame\<close>

text \<open>
  One row of the input: the six columns the constructor documents. Dates are parsed days;
  prices are finite floats, volumes integers.
\<close>

record bar =
  Date :: int
  Open :: real
  High :: real
  Low :: real
  Close :: real
  Volume :: int

text \<open>
  \<open>self.data\<close>: the rows and the columns the indicator methods add to it
  (\<open>None\<close> while a column is absent).
\<close>

record frame =
  rows :: "bar list"
  RSI :: "fl list option"
  RSI_Signal :: "string list option"
  MACD :: "real list option"
  MACD_Signal :: "real list option"
  MACD_Histogram :: "real list option"
  MACD_Cross :: "string list option"
  BB_Middle :: "fl list option"
  BB_Upper :: "fl list option"
  BB_Lower :: "fl list option"
  BB_Width :: "fl list option"
  BB_Signal :: "string list option"
  Volume_MA :: "fl list option"
  Volume_Spike :: "bool list option"
  OBV :: "int list option"

subsection \<open>Series operations of pandas\<close>

text \<open>\<open>series.diff()\<close>: the first entry has no predecessor and is \<open>NaN\<close>.\<close>

fun diff_from :: "real \<Rightarrow> real list \<Rightarrow> fl list" where
  "diff_from prev [] = []"
| "diff_from prev (x # xs) = Fin (x - prev) # diff_from x xs"

fun diff :: "real list \<Rightarrow> fl list" where
  "diff [] = []"
| "diff (x # xs) = NaN # diff_from x xs"

definition fl_sum :: "fl list \<Rightarrow> fl" where
  "fl_sum xs = foldr fl_add xs (Fin 0)"

text \<open>
  \<open>series.mean()\<close> of a series without \<open>NaN\<close>; the mean of an empty series is
  \<open>NaN\<close>.
\<close>

definition fl_mean :: "fl list \<Rightarrow> fl" where
  "fl_mean xs = fl_div (fl_sum xs) (Fin (real (length xs)))"

text \<open>
  The window of \<open>series.rolling(window=w)\<close> ending at position \<open>i\<close>, and
  \<open>.mean()\<close> on it: \<open>NaN\<close> until \<open>w\<close> observations are there, and \<open>NaN\<close>
  when the window holds a \<open>NaN\<close>.
\<close>

definition window :: "nat \<Rightarrow> 'a list \<Rightarrow> nat \<Rightarrow> 'a list" where
  "window w xs i = take w (drop (i + 1 - w) xs)"

definition rolling_mean :: "nat \<Rightarrow> fl list \<Rightarrow> fl list" where
  "rolling_mean w xs =
     map (\<lambda>i. if i + 1 < w then NaN else fl_mean (window w xs i)) [0..<length xs]"

fun fl_sqrt :: "fl \<Rightarrow> fl" where
  "fl_sqrt (Fin a) = (if a < 0 then NaN else Fin (sqrt a))"
| "fl_sqrt PInf = PInf"
| "fl_sqrt NInf = NaN"
| "fl_sqrt NaN = NaN"

text \<open>\<open>.std()\<close> of a window: the sample standard deviation (one degree of freedom less).\<close>

definition sample_std :: "real list \<Rightarrow> fl" where
  "sample_std xs =
     (let m = sum_list xs / real (length xs)
      in fl_sqrt (fl_div (Fin (sum_list (map (\<lambda>x. (x - m)\<^sup>2) xs))) (Fin (real (length xs - 1)))))"

definition rolling_std :: "nat \<Rightarrow> real list \<Rightarrow> fl list" where
  "rolling_std w xs =
     map (\<lambda>i. if i + 1 < w then NaN else sample_std (window w xs i)) [0..<length xs]"

text \<open>
  \<open>series.ewm(span=n, adjust=False).mean()\<close>: the recursion starts from the first value and
  weighs each new value with \<open>2 / (n + 1)\<close>.
\<close>

fun ewm_from :: "real \<Rightarrow> real \<Rightarrow> real list \<Rightarrow> real list" where
  "ewm_from \<alpha> prev [] = []"
| "ewm_from \<alpha> prev (x # xs) = (let e = (1 - \<alpha>) * prev + \<alpha> * x in e # ewm_from \<alpha> e xs)"

fun ewm_mean :: "nat \<Rightarrow> real list \<Rightarrow> real list" where
  "ewm_mean n [] = []"
| "ewm_mean n (x # xs) = x # ewm_from (2 / (real n + 1)) x xs"

subsection \<open>RSI\<close>

definition rsi_signal_of :: "fl \<Rightarrow> string" where
  "rsi_signal_of r =
     (if fl_less r (Fin 30) then ''Oversold''
      else if fl_less (Fin 70) r then ''Overbought''
      else ''Neutral'')"

text \<open>
  \<open>delta.where(delta > 0, 0)\<close> keeps an entry where the test holds and puts \<open>0\<close>
  elsewhere, also where the entry is \<open>NaN\<close>.
\<close>

definition rsi_gain :: "nat \<Rightarrow> real list \<Rightarrow> fl list" where
  "rsi_gain period closes =
     rolling_mean period (map (\<lambda>d. if fl_less (Fin 0) d then d else Fin 0) (diff closes))"

definition rsi_loss :: "nat \<Rightarrow> real list \<Rightarrow> fl list" where
  "rsi_loss period closes =
     rolling_mean period
       (map (\<lambda>d. fl_neg (if fl_less d (Fin 0) then d else Fin 0)) (diff closes))"

definition rsi_series :: "nat \<Rightarrow> real list \<Rightarrow> fl list" where
  "rsi_series period closes =
     (let gain = rsi_gain period closes;
          loss = rsi_loss period closes;
          rs = map2 fl_div gain loss
      in map (\<lambda>r. fl_sub (Fin 100) (fl_div (Fin 100) (fl_add (Fin 1) r))) rs)"

definition calculate_rsi :: "nat \<Rightarrow> frame \<Rightarrow> frame \<times> fl list" where
  "calculate_rsi period f =
     (let rsi = rsi_series period (map Close (rows f))
      in (f\<lparr>RSI := Some rsi, RSI_Signal := Some (map rsi_signal_of rsi)\<rparr>, rsi))"

subsection \<open>MACD\<close>

text \<open>
  The loop over the bars from the second one on: the label of a bar is overwritten when the
  MACD line crosses the signal line between the bar before and this one.
\<close>

definition macd_cross_step :: "real list \<Rightarrow> real list \<Rightarrow> nat \<Rightarrow> string list \<Rightarrow> string list" where
  "macd_cross_step macd_l signal_l i col =
     (if macd_l ! i > signal_l ! i \<and> macd_l ! (i - 1) \<le> signal_l ! (i - 1)
        then col[i := ''Buy'']
      else if macd_l ! i < signal_l ! i \<and> macd_l ! (i - 1) \<ge> signal_l ! (i - 1)
        then col[i := ''Sell'']
      else col)"

definition macd_cross :: "real list \<Rightarrow> real list \<Rightarrow> string list" where
  "macd_cross macd_l signal_l =
     fold (macd_cross_step macd_l signal_l) [1..<length macd_l]
       (replicate (length macd_l) ''Hold'')"

definition macd_line_of :: "nat \<Rightarrow> nat \<Rightarrow> real list \<Rightarrow> real list" where
  "macd_line_of fast slow closes =
     map2 (\<lambda>a b. a - b) (ewm_mean fast closes) (ewm_mean slow closes)"

definition macd_histogram_of :: "nat \<Rightarrow> nat \<Rightarrow> nat \<Rightarrow> real list \<Rightarrow> real list" where
  "macd_histogram_of fast slow sig closes =
     (let macd_l = macd_line_of fast slow closes
      in map2 (\<lambda>a b. a - b) macd_l (ewm_mean sig macd_l))"

definition calculate_macd ::
    "nat \<Rightarrow> nat \<Rightarrow> nat \<Rightarrow> frame \<Rightarrow> frame \<times> real list \<times> real list \<times> real list" where
  "calculate_macd fast slow sig f =
     (let macd_l = macd_line_of fast slow (map Close (rows f));
          signal_l = ewm_mean sig macd_l;
          hist = macd_histogram_of fast slow sig (map Close (rows f))
      in (f\<lparr>MACD := Some macd_l, MACD_Signal := Some signal_l, MACD_Histogram := Some hist,
            MACD_Cross := Some (macd_cross macd_l signal_l)\<rparr>,
          macd_l, signal_l, hist))"

subsection \<open>Bollinger bands\<close>

text \<open>
  The label starts as \<open>Neutral\<close>, is set to \<open>Overbought\<close> where the close is at or above
  the upper band, and then to \<open>Oversold\<close> where it is at or below the lower band: the
  second assignment wins where both hold.
\<close>

definition bb_signal_of :: "real \<Rightarrow> fl \<Rightarrow> fl \<Rightarrow> string" where
  "bb_signal_of c upper lower =
     (if fl_le (Fin c) lower then ''Oversold''
      else if fl_le upper (Fin c) then ''Overbought''
      else ''Neutral'')"

definition calculate_bollinger_bands ::
    "nat \<Rightarrow> real \<Rightarrow> frame \<Rightarrow> frame \<times> fl list \<times> fl list \<times> fl list" where
  "calculate_bollinger_bands period std_dev f =
     (let closes = map Close (rows f);
          sma = rolling_mean period (map Fin closes);
          std = rolling_std period closes;
          upper_band = map2 (\<lambda>m s. fl_add m (fl_mul (Fin std_dev) s)) sma std;
          lower_band = map2 (\<lambda>m s. fl_sub m (fl_mul (Fin std_dev) s)) sma std
      in (f\<lparr>BB_Middle := Some sma, BB_Upper := Some upper_band, BB_Lower := Some lower_band,
            BB_Width := Some (map2 fl_sub upper_band lower_band),
            BB_Signal := Some (map (\<lambda>(c, u, l). bb_signal_of c u l)
                                 (zip closes (zip upper_band lower_band)))\<rparr>,
          upper_band, sma, lower_band))"

subsection \<open>Support and resistance\<close>

text \<open>
  \<open>argrelextrema(data, comparator, order)\<close> of scipy with its default mode \<open>clip\<close>:
  position \<open>i\<close> is kept when the comparator holds against the entries up to \<open>order\<close>
  places to either side, a place beyond an end of the array being read at that end.
\<close>

definition argrelextrema :: "(real \<Rightarrow> real \<Rightarrow> bool) \<Rightarrow> nat \<Rightarrow> real list \<Rightarrow> nat list" where
  "argrelextrema comparator order xs =
     filter (\<lambda>i. list_all (\<lambda>shift. comparator (xs ! i) (xs ! min (i + shift) (length xs - 1))
                                  \<and> comparator (xs ! i) (xs ! (i - shift)))
                    [1..<order + 1])
       [0..<length xs]"

text \<open>
  Whether two clusters merge is decided by the last bit of a mean, so the clustering is
  modelled with the rounding of the 64-bit floats written out. \<open>b64\<close> rounds a real
  number to the nearest float with a significand of 53 bits, a tie going to the even
  significand; \<open>expo\<close> finds the binary exponent in at most as many steps as the format
  has exponents. Overflow and the subnormal range are not modelled: price levels are far
  from both.
\<close>

fun expo :: "nat \<Rightarrow> real \<Rightarrow> int" where
  "expo 0 x = 0"
| "expo (Suc n) x =
     (if 2 \<le> x then expo n (x / 2) + 1
      else if x < 1 then expo n (2 * x) - 1
      else 0)"

definition b64 :: "real \<Rightarrow> real" where
  "b64 x =
     (if x = 0 then 0
      else
        (let e = expo 2100 \<bar>x\<bar>;
             q = (if 52 \<le> e then 2 ^ nat (e - 52) else 1 / 2 ^ nat (52 - e))
         in sgn x * (q * of_int (round_half_even (\<bar>x\<bar> / q)))))"

fun fl_round :: "fl \<Rightarrow> fl" where
  "fl_round (Fin x) = Fin (b64 x)"
| "fl_round v = v"

text \<open>
  \<open>np.mean\<close> of a cluster: numpy starts from the first value and adds to it the sum of
  the others, every addition and the final division rounded. The others are added one
  after the other, which is numpy's order for up to eight of them; it adds longer runs in
  blocks of eight.
\<close>

definition np_sum :: "real list \<Rightarrow> real" where
  "np_sum xs =
     (case xs of [] \<Rightarrow> 0
      | x # rest \<Rightarrow> b64 (x + foldl (\<lambda>acc y. b64 (acc + y)) 0 rest))"

definition np_mean :: "real list \<Rightarrow> real" where
  "np_mean xs = b64 (np_sum xs / real (length xs))"

text \<open>
  The test of \<open>cluster_levels\<close>: the distance of a level from the mean of the current
  cluster, relative to that mean, is below the tolerance. The difference and the quotient
  are rounded; a mean of zero gives an infinity or \<open>NaN\<close> and the test fails.
\<close>

definition near_mean :: "real \<Rightarrow> real \<Rightarrow> real \<Rightarrow> bool" where
  "near_mean tolerance level m =
     fl_less (fl_round (fl_div (Fin \<bar>b64 (level - m)\<bar>) (Fin m))) (Fin tolerance)"

fun cluster_loop :: "real \<Rightarrow> real list \<Rightarrow> real list \<Rightarrow> real list" where
  "cluster_loop tolerance current_cluster [] = [np_mean current_cluster]"
| "cluster_loop tolerance current_cluster (level # levels) =
     (if near_mean tolerance level (np_mean current_cluster)
      then cluster_loop tolerance (current_cluster @ [level]) levels
      else np_mean current_cluster # cluster_loop tolerance [level] levels)"

definition cluster_levels_tol :: "real \<Rightarrow> real list \<Rightarrow> real list" where
  "cluster_levels_tol tolerance levels =
     (if length levels = 0 then []
      else (let levels = sort levels
            in cluster_loop tolerance [hd levels] (tl levels)))"

text \<open>The default tolerance is the float nearest to 0.02.\<close>

definition cluster_levels :: "real list \<Rightarrow> real list" where
  "cluster_levels levels = cluster_levels_tol (b64 (2 / 100)) levels"

text \<open>\<open>max(xs) if xs else None\<close> and \<open>min(xs) if xs else None\<close>.\<close>

definition max_or_none :: "real list \<Rightarrow> real option" where
  "max_or_none xs = (if xs = [] then None else Some (Max (set xs)))"

definition min_or_none :: "real list \<Rightarrow> real option" where
  "min_or_none xs = (if xs = [] then None else Some (Min (set xs)))"

definition find_support_resistance :: "nat \<Rightarrow> frame \<Rightarrow> error + sr_info" where
  "find_support_resistance order f =
     (let lows = map Low (rows f);
          highs = map High (rows f);
          support_indices = argrelextrema (\<le>) order lows;
          support_levels = map (\<lambda>i. lows ! i) support_indices;
          resistance_indices = argrelextrema (\<ge>) order highs;
          resistance_levels = map (\<lambda>i. highs ! i) resistance_indices;
          support_levels = cluster_levels support_levels;
          resistance_levels = cluster_levels resistance_levels
      in ebind (iloc_last (map Close (rows f))) (\<lambda>current_price.
           (let support_below = filter (\<lambda>s. s < current_price) support_levels;
                resistance_above = filter (\<lambda>r. r > current_price) resistance_levels
            in Inr \<lparr>sr_support_levels = last_n 5 support_levels,
                    sr_resistance_levels = last_n 5 resistance_levels,
                    sr_nearest_support = max_or_none support_below,
                    sr_nearest_resistance = min_or_none resistance_above,
                    sr_current_price = current_price\<rparr>)))"

subsection \<open>Volume\<close>

text \<open>The on-balance volume: the list starts as \<open>[0]\<close> and grows by one entry per later bar.\<close>

fun obv_loop :: "bar \<Rightarrow> bar list \<Rightarrow> int list \<Rightarrow> int list" where
  "obv_loop prev [] obv = obv"
| "obv_loop prev (b # bs) obv =
     obv_loop b bs
       (if Close b > Close prev then obv @ [last obv + Volume b]
        else if Close b < Close prev then obv @ [last obv - Volume b]
        else obv @ [last obv])"

definition obv_list :: "bar list \<Rightarrow> int list" where
  "obv_list bs = (case bs of [] \<Rightarrow> [0] | b # rest \<Rightarrow> obv_loop b rest [0])"

text \<open>
  Assigning the list \<open>obv\<close> as a column raises when its length is not the number of rows,
  which is the case for a frame without rows.
\<close>

definition analyze_volume :: "frame \<Rightarrow> frame \<times> (error + volume_info)" where
  "analyze_volume f =
     (let volumes = map (\<lambda>b. Fin (real_of_int (Volume b))) (rows f);
          volume_ma = rolling_mean 20 volumes;
          f = f\<lparr>Volume_MA := Some volume_ma\<rparr>;
          f = f\<lparr>Volume_Spike := Some (map2 (\<lambda>v m. fl_less (fl_mul (Fin 2) m) v) volumes volume_ma)\<rparr>;
          obv = obv_list (rows f)
      in if length obv \<noteq> length (rows f) then (f, Inl ValueError)
         else
           (let f = f\<lparr>OBV := Some obv\<rparr>;
                recent_volume = fl_mean (last_n 20 volumes);
                older_volume = fl_mean (take (length volumes - 20) (drop (length volumes - 40) volumes));
                volume_trend = (if fl_less older_volume recent_volume then ''Increasing''
                                else ''Decreasing'')
            in (f,
                ebind (iloc_last (map Volume (rows f))) (\<lambda>cur_volume.
                ebind (ebind (column (Volume_MA f)) iloc_last) (\<lambda>avg.
                ebind (ebind (column (OBV f)) iloc_last) (\<lambda>obv_last.
                ebind (column (Volume_Spike f)) (\<lambda>spikes.
                  Inr \<lparr>vol_current_volume = cur_volume,
                       vol_avg_volume = avg,
                       vol_volume_trend = volume_trend,
                       vol_obv = obv_last,
                       vol_recent_spikes = length (filter id (last_n 10 spikes))\<rparr>)))))))"

subsection \<open>Candlestick patterns\<close>

definition pattern_event :: "int \<Rightarrow> string \<Rightarrow> string \<Rightarrow> string \<Rightarrow> pattern_event" where
  "pattern_event d p t descr = \<lparr>pe_date = d, pe_pattern = p, pe_type = t, pe_description = descr\<rparr>"

text \<open>
  The body of the loop of \<open>detect_candlestick_patterns\<close> at one bar, given the bar before
  it: the five tests are independent and each appends its event.
\<close>

definition bar_patterns :: "bar \<Rightarrow> bar \<Rightarrow> pattern_event list" where
  "bar_patterns prev cur =
     (let open_price = Open cur; close_p = Close cur; high = High cur; low = Low cur;
          prev_open = Open prev; prev_close = Close prev;
          body = \<bar>close_p - open_price\<bar>;
          total_range = high - low;
          upper_shadow = high - max open_price close_p;
          lower_shadow = min open_price close_p - low
      in (if total_range > 0 \<and> body / total_range < 1 / 10
          then [pattern_event (Date cur) ''Doji'' ''Neutral'' ''Indecision in the market'']
          else [])
       @ (if body > 0 \<and> lower_shadow > 2 * body \<and> upper_shadow < body \<and> close_p > open_price
          then [pattern_event (Date cur) ''Hammer'' ''Bullish'' ''Potential bullish reversal'']
          else [])
       @ (if body > 0 \<and> upper_shadow > 2 * body \<and> lower_shadow < body \<and> close_p < open_price
          then [pattern_event (Date cur) ''Shooting Star'' ''Bearish'' ''Potential bearish reversal'']
          else [])
       @ (if close_p > open_price \<and> prev_close < prev_open
             \<and> close_p > prev_open \<and> open_price < prev_close
          then [pattern_event (Date cur) ''Bullish Engulfing'' ''Bullish''
                  ''Strong bullish reversal signal'']
          else [])
       @ (if close_p < open_price \<and> prev_close > prev_open
             \<and> close_p < prev_open \<and> open_price > prev_close
          then [pattern_event (Date cur) ''Bearish Engulfing'' ''Bearish''
                  ''Strong bearish reversal signal'']
          else []))"

definition all_patterns :: "bar list \<Rightarrow> pattern_event list" where
  "all_patterns bs =
     fold (\<lambda>i patterns. patterns @ bar_patterns (bs ! (i - 1)) (bs ! i)) [2..<length bs] []"

definition detect_candlestick_patterns :: "frame \<Rightarrow> pattern_event list" where
  "detect_candlestick_patterns f = last_n 10 (all_patterns (rows f))"

subsection \<open>The whole analysis\<close>

definition trend_of :: "real \<Rightarrow> fl \<Rightarrow> fl \<Rightarrow> string" where
  "trend_of current_price sma_20 sma_50 =
     (if fl_less sma_20 (Fin current_price) \<and> fl_less sma_50 sma_20 then ''Strong Uptrend''
      else if fl_less sma_20 (Fin current_price) then ''Uptrend''
      else if fl_less (Fin current_price) sma_20 \<and> fl_less sma_20 sma_50 then ''Strong Downtrend''
      else if fl_less (Fin current_price) sma_20 then ''Downtrend''
      else ''Sideways'')"

text \<open>
  The part of \<open>calculate_all_indicators\<close> after the six indicator methods have run: it
  reads the last entries, builds the dictionary and adds the recommendation to it.
\<close>

definition compile_results ::
    "frame \<Rightarrow> fl list \<Rightarrow> real list \<Rightarrow> real list \<Rightarrow> real list \<Rightarrow> fl list \<Rightarrow> fl list \<Rightarrow> fl list
       \<Rightarrow> sr_info \<Rightarrow> volume_info \<Rightarrow> pattern_event list \<Rightarrow> error + analysis_result" where
  "compile_results f rsi macd_l signal_l hist bb_up bb_mid bb_low sr vol pats =
     (let closes = map Close (rows f)
      in ebind (iloc_last (rolling_mean 20 (map Fin closes))) (\<lambda>sma_20.
         ebind (iloc_last (rolling_mean 50 (map Fin closes))) (\<lambda>sma_50.
         ebind (iloc_last closes) (\<lambda>current_price.
         (let trend = trend_of current_price sma_20 sma_50
          in ebind (iloc_last rsi) (\<lambda>rsi_last.
             ebind (ebind (column (RSI_Signal f)) iloc_last) (\<lambda>rsi_sig.
             ebind (iloc_last macd_l) (\<lambda>macd_last.
             ebind (iloc_last signal_l) (\<lambda>signal_last.
             ebind (iloc_last hist) (\<lambda>hist_last.
             ebind (ebind (column (MACD_Cross f)) iloc_last) (\<lambda>macd_sig.
             ebind (iloc_last bb_up) (\<lambda>upper_last.
             ebind (iloc_last bb_mid) (\<lambda>middle_last.
             ebind (iloc_last bb_low) (\<lambda>lower_last.
             ebind (ebind (column (BB_Width f)) iloc_last) (\<lambda>width_last.
             ebind (ebind (column (BB_Signal f)) iloc_last) (\<lambda>bb_sig.
             (let results =
                    \<lparr>res_current_price = current_price,
                     res_trend = trend,
                     res_rsi = \<lparr>rsi_value = (if \<not> isna rsi_last then rsi_last else Fin 0),
                                rsi_signal = rsi_sig,
                                rsi_interpretation = interpret_rsi rsi_last\<rparr>,
                     res_macd = \<lparr>macd_macd_line = macd_last,
                                 macd_signal_line = signal_last,
                                 macd_histogram = hist_last,
                                 macd_signal = macd_sig,
                                 macd_interpretation = interpret_macd hist_last\<rparr>,
                     res_bollinger_bands =
                        \<lparr>bb_upper = upper_last,
                         bb_middle = middle_last,
                         bb_lower = lower_last,
                         bb_width = width_last,
                         bb_signal = bb_sig,
                         bb_interpretation = interpret_bb current_price upper_last lower_last\<rparr>,
                     res_support_resistance = sr,
                     res_volume = vol,
                     res_patterns = pats,
                     res_sma_20 = sma_20,
                     res_sma_50 = sma_50\<rparr>
              in Inr (results.extend results
                        (analysis_result.fields (generate_recommendation results)))
             )))))))))))))))))"

text \<open>
  \<open>calculate_all_indicators\<close> on \<open>self.data\<close>: the frame is returned as the methods left
  it, also when one of them raises.
\<close>

definition calculate_all_indicators :: "frame \<Rightarrow> frame \<times> (error + analysis_result)" where
  "calculate_all_indicators f =
     (let (f, rsi) = calculate_rsi 14 f;
          (f, macd_l, signal_l, hist) = calculate_macd 12 26 9 f;
          (f, bb_up, bb_mid, bb_low) = calculate_bollinger_bands 20 2 f
      in case find_support_resistance 5 f of
           Inl e \<Rightarrow> (f, Inl e)
         | Inr support_resistance \<Rightarrow>
             (case analyze_volume f of
                (f, Inl e) \<Rightarrow> (f, Inl e)
              | (f, Inr volume_analysis) \<Rightarrow>
                  (let pats = detect_candlestick_patterns f
                   in (f, compile_results f rsi macd_l signal_l hist bb_up bb_mid bb_low
                            support_resistance volume_analysis pats))))"

subsection \<open>The engine object and the store of data frames\<close>

text \<open>
  Data frames are objects: the store holds them and an address names one. The constructor
  copies the frame it is given (\<open>data.copy()\<close>) and sorts the copy by date into one more
  new frame (\<open>sort_values\<close> followed by \<open>reset_index\<close>); \<open>self.data\<close> is the address of
  the last one. Sorting permutes every column by the positions that put the dates in
  order; the order among equal dates is the order of the input here.
\<close>

type_synonym store = "frame list"

definition argsort :: "int list \<Rightarrow> nat list" where
  "argsort keys = sort_key (\<lambda>i. keys ! i) [0..<length keys]"

definition take_col :: "nat list \<Rightarrow> 'a list \<Rightarrow> 'a list" where
  "take_col idx c = map (\<lambda>i. c ! i) idx"

definition take_rows :: "nat list \<Rightarrow> frame \<Rightarrow> frame" where
  "take_rows idx f =
     \<lparr>rows = take_col idx (rows f),
      RSI = map_option (take_col idx) (RSI f),
      RSI_Signal = map_option (take_col idx) (RSI_Signal f),
      MACD = map_option (take_col idx) (MACD f),
      MACD_Signal = map_option (take_col idx) (MACD_Signal f),
      MACD_Histogram = map_option (take_col idx) (MACD_Histogram f),
      MACD_Cross = map_option (take_col idx) (MACD_Cross f),
      BB_Middle = map_option (take_col idx) (BB_Middle f),
      BB_Upper = map_option (take_col idx) (BB_Upper f),
      BB_Lower = map_option (take_col idx) (BB_Lower f),
      BB_Width = map_option (take_col idx) (BB_Width f),
      BB_Signal = map_option (take_col idx) (BB_Signal f),
      Volume_MA = map_option (take_col idx) (Volume_MA f),
      Volume_Spike = map_option (take_col idx) (Volume_Spike f),
      OBV = map_option (take_col idx) (OBV f)\<rparr>"

definition sort_values_Date :: "frame \<Rightarrow> frame" where
  "sort_values_Date f = take_rows (argsort (map Date (rows f))) f"

record engine =
  data :: nat

definition alloc :: "store \<Rightarrow> frame \<Rightarrow> nat \<times> store" where
  "alloc s f = (length s, s @ [f])"

definition TechnicalIndicators :: "store \<Rightarrow> nat \<Rightarrow> engine \<times> store" where
  "TechnicalIndicators s d =
     (let (c, s) = alloc s (s ! d);
          (a, s) = alloc s (sort_values_Date (s ! c))
      in (\<lparr>data = a\<rparr>, s))"

text \<open>The method called on the object: it works on the frame at \<open>self.data\<close>, in place.\<close>

definition run_calculate_all_indicators :: "engine \<Rightarrow> store \<Rightarrow> (error + analysis_result) \<times> store" where
  "run_calculate_all_indicators self s =
     (let (f, r) = calculate_all_indicators (s ! data self)
      in (r, s[data self := f]))"

text \<open>
  The two lines of \<open>analyze_stock_technical\<close> after the data are fetched: construct the
  engine on the frame at address \<open>d\<close> and run the analysis.
\<close>

definition analyze :: "store \<Rightarrow> nat \<Rightarrow> (error + analysis_result) \<times> store" where
  "analyze s d =
     (let (ti, s) = TechnicalIndicators s d
      in run_calculate_all_indicators ti s)"

text \<open>A frame with the six input columns only, as the data-fetch collaborator delivers it.\<close>

definition input_frame :: "bar list \<Rightarrow> frame" where
  "input_frame bs =
     \<lparr>rows = bs, RSI = None, RSI_Signal = None, MACD = None, MACD_Signal = None,
      MACD_Histogram = None, MACD_Cross = None, BB_Middle = None, BB_Upper = None,
      BB_Lower = None, BB_Width = None, BB_Signal = None, Volume_MA = None,
      Volume_Spike = None, OBV = None\<rparr>"

text \<open>The result of analysing a series of bars that is the only frame in the store.\<close>

definition analyze_bars :: "bar list \<Rightarrow> error + analysis_result" where
  "analyze_bars bs = fst (analyze [input_frame bs] 0)"

subsection \<open>The recommendation rule in the words of the specification\<close>

text \<open>
  The reference definition of the specification, written from its text and not from the
  code: each indicator adds its points to one of two counters, the volume bonus goes to
  the buy counter alone, and the action is the first rule of an ordered list that matches.
\<close>

definition spec_scores :: "'a results_scheme \<Rightarrow> int \<times> int" where
  "spec_scores res =
     (let buy = (if rsi_signal (res_rsi res) = ''Oversold'' then 2 else 0)
              + (if macd_signal (res_macd res) = ''Buy'' then 2 else 0)
              + (if bb_signal (res_bollinger_bands res) = ''Oversold'' then 1 else 0)
              + (if str_in ''Uptrend'' (res_trend res) then 1 else 0);
          sell = (if rsi_signal (res_rsi res) = ''Overbought'' then 2 else 0)
               + (if macd_signal (res_macd res) = ''Sell'' then 2 else 0)
               + (if bb_signal (res_bollinger_bands res) = ''Overbought'' then 1 else 0)
               + (if str_in ''Downtrend'' (res_trend res) then 1 else 0)
      in (if vol_volume_trend (res_volume res) = ''Increasing'' \<and> buy > sell then buy + 1 else buy,
          sell))"

definition spec_rules :: "((int \<Rightarrow> int \<Rightarrow> bool) \<times> string \<times> (int \<Rightarrow> int \<Rightarrow> int)) list" where
  "spec_rules =
     [(\<lambda>buy sell. buy > sell + 2, ''Strong Buy'', \<lambda>buy sell. min 95 (buy * 15)),
      (\<lambda>buy sell. buy > sell, ''Buy'', \<lambda>buy sell. min 80 (buy * 12)),
      (\<lambda>buy sell. sell > buy + 2, ''Strong Sell'', \<lambda>buy sell. min 95 (sell * 15)),
      (\<lambda>buy sell. sell > buy, ''Sell'', \<lambda>buy sell. min 80 (sell * 12))]"

definition spec_mapping :: "int \<Rightarrow> int \<Rightarrow> string \<times> int" where
  "spec_mapping buy sell =
     (case find (\<lambda>(cond, label, conf). cond buy sell) spec_rules of
        Some (cond, label, conf) \<Rightarrow> (label, conf buy sell)
      | None \<Rightarrow> (''Hold'', 50))"

subsection \<open>Shapes used in the proofs\<close>

text \<open>
  A list of levels in ascending order in which no level is within the tolerance of the one
  before it.
\<close>

fun separated :: "real \<Rightarrow> real list \<Rightarrow> bool" where
  "separated tolerance [] = True"
| "separated tolerance [a] = True"
| "separated tolerance (a # b # rest) =
     (a \<le> b \<and> \<not> near_mean tolerance b a \<and> separated tolerance (b # rest))"

text \<open>
  The two zero-filled columns of \<open>calculate_rsi\<close> as real numbers: the rise of the close
  over the bar before where it rose, and the fall where it fell.
\<close>

definition gains :: "real list \<Rightarrow> real list" where
  "gains closes =
     map (\<lambda>d. case d of Fin x \<Rightarrow> (if 0 < x then x else 0) | _ \<Rightarrow> 0) (diff closes)"

definition losses :: "real list \<Rightarrow> real list" where
  "losses closes =
     map (\<lambda>d. case d of Fin x \<Rightarrow> (if x < 0 then - x else 0) | _ \<Rightarrow> 0) (diff closes)"

text \<open>The label \<open>volume_trend\<close> that \<open>analyze_volume\<close> computes from the rows.\<close>

definition volume_trend_of :: "bar list \<Rightarrow> string" where
  "volume_trend_of bs =
     (let volumes = map (\<lambda>b. Fin (real_of_int (Volume b))) bs
      in if fl_less (fl_mean (take (length volumes - 20) (drop (length volumes - 40) volumes)))
                    (fl_mean (last_n 20 volumes))
         then ''Increasing'' else ''Decreasing'')"

text \<open>The column \<open>BB_Signal\<close> that \<open>calculate_bollinger_bands\<close> writes, from the closes.\<close>

definition bb_signal_col :: "nat \<Rightarrow> real \<Rightarrow> real list \<Rightarrow> string list" where
  "bb_signal_col period std_dev closes =
     (let sma = rolling_mean period (map Fin closes);
          std = rolling_std period closes;
          upper_band = map2 (\<lambda>m s. fl_add m (fl_mul (Fin std_dev) s)) sma std;
          lower_band = map2 (\<lambda>m s. fl_sub m (fl_mul (Fin std_dev) s)) sma std
      in map (\<lambda>(c, u, l). bb_signal_of c u l) (zip closes (zip upper_band lower_band)))"

subsection \<open>Example inputs\<close>

text \<open>
  Four bars: the third engulfs the falling second one upwards, the fourth engulfs the
  third downwards.
\<close>

definition demo_bars :: "bar list" where
  "demo_bars =
     [\<lparr>Date = 1, Open = 88, High = 92, Low = 87, Close = 91, Volume = 1000\<rparr>,
      \<lparr>Date = 2, Open = 90, High = 91, Low = 79, Close = 80, Volume = 1000\<rparr>,
      \<lparr>Date = 3, Open = 78, High = 96, Low = 77, Close = 95, Volume = 1000\<rparr>,
      \<lparr>Date = 4, Open = 97, High = 98, Low = 69, Close = 70, Volume = 1000\<rparr>]"

text \<open>Fourteen closes rising by one, and sixteen equal closes.\<close>

definition rising14 :: "real list" where
  "rising14 = [1, 2, 3, 4, 5, 6, 7, 8, 9, 10, 11, 12, 13, 14]"

definition flat16 :: "real list" where
  "flat16 = replicate 16 100"

text \<open>Two bars out of date order, the earlier one with a negative price and volume.\<close>

definition unsorted_bars :: "bar list" where
  "unsorted_bars =
     [\<lparr>Date = 2, Open = 10, High = 12, Low = 9, Close = 11, Volume = 100\<rparr>,
      \<lparr>Date = 1, Open = - 3, High = 12, Low = - 4, Close = 10, Volume = - 5\<rparr>]"

text \<open>A single bar.\<close>

definition one_bar :: "bar list" where
  "one_bar = [\<lparr>Date = 1, Open = 100, High = 101, Low = 99, Close = 100, Volume = 1000\<rparr>]"

text \<open>
  A bar of day \<open>i\<close> with all four prices equal to \<open>i\<close>, and fourteen such bars whose
  closes are the fourteen rising closes above.
\<close>

definition day_bar :: "nat \<Rightarrow> bar" where
  "day_bar i = \<lparr>Date = int i, Open = real i, High = real i, Low = real i, Close = real i,
               Volume = 1000\<rparr>"

definition bars14 :: "bar list" where
  "bars14 = map day_bar [1, 2, 3, 4, 5, 6, 7, 8, 9, 10, 11, 12, 13, 14]"


text \<open>
  A series whose rise from bar to bar never shrinks: each step from the close \<open>c\<close> is at
  least the step \<open>d\<close> before it.
\<close>

fun steps_grow :: "real \<Rightarrow> real \<Rightarrow> real list \<Rightarrow> bool" where
  "steps_grow d c [] = True"
| "steps_grow d c (x # xs) = (d \<le> x - c \<and> steps_grow (x - c) x xs)"

text \<open>
  Candidate levels: 1.0 with six times the float nearest to 1.02, and 1.0 with that float
  once.
\<close>

definition ex7 :: "real list" where
  "ex7 = [1, 2296835809958953 / 2251799813685248, 2296835809958953 / 2251799813685248,
          2296835809958953 / 2251799813685248, 2296835809958953 / 2251799813685248,
          2296835809958953 / 2251799813685248, 2296835809958953 / 2251799813685248]"

definition ex2 :: "real list" where
  "ex2 = [1, 2296835809958953 / 2251799813685248]"

text \<open>Two such bars, the second closing higher.\<close>

definition two_bars :: "bar list" where
  "two_bars = [day_bar 1, day_bar 2]"

section \<open>Properties\<close>

subsection \<open>Interpretation of the RSI\<close>

text \<open>
  C9 (as stated, refuted): the claim puts an RSI of exactly 50 in the bracket
  \<open>Bullish momentum\<close> and every RSI below 50 in \<open>Bearish momentum\<close>. The code answers
  \<open>Bearish momentum\<close> at 50 and \<open>Oversold - Consider buying\<close> at 20.
\<close>

theorem interpret_rsi_fifty_counterexample:
  "interpret_rsi (Fin 50) \<noteq> ''Bullish momentum'' \<and> interpret_rsi (Fin 20) \<noteq> ''Bearish momentum''"
  by simp

text \<open>
  C9 (amended): the interpretation is \<open>Insufficient data\<close> for an undefined RSI,
  \<open>Overbought - Consider selling\<close> above 70, \<open>Oversold - Consider buying\<close> below 30,
  \<open>Bullish momentum\<close> above 50 and up to 70, and \<open>Bearish momentum\<close> from 30 up to
  and including 50.
\<close>

theorem interpret_rsi_brackets:
  "interpret_rsi NaN = ''Insufficient data''
   \<and> (70 < x \<longrightarrow> interpret_rsi (Fin x) = ''Overbought - Consider selling'')
   \<and> (x < 30 \<longrightarrow> interpret_rsi (Fin x) = ''Oversold - Consider buying'')
   \<and> (50 < x \<and> x \<le> 70 \<longrightarrow> interpret_rsi (Fin x) = ''Bullish momentum'')
   \<and> (30 \<le> x \<and> x \<le> 50 \<longrightarrow> interpret_rsi (Fin x) = ''Bearish momentum'')"
  by simp

theorem interpret_rsi_brackets_witness:
  "interpret_rsi (Fin 75) = ''Overbought - Consider selling''
   \<and> interpret_rsi (Fin 20) = ''Oversold - Consider buying''
   \<and> interpret_rsi (Fin 60) = ''Bullish momentum''
   \<and> interpret_rsi (Fin 50) = ''Bearish momentum''"
  using interpret_rsi_brackets [of 75] interpret_rsi_brackets [of 20]
    interpret_rsi_brackets [of 60] interpret_rsi_brackets [of 50]
  by simp

subsection \<open>Bounds of the recommendation\<close>

lemma signal_counts_bounds:
  "0 \<le> fst (signal_counts res) \<and> fst (signal_counts res) \<le> 7
   \<and> 0 \<le> snd (signal_counts res) \<and> snd (signal_counts res) \<le> 6"
  by (simp add: signal_counts_def Let_def)

text \<open>
  C6: whatever the result dictionary holds, the confidence of the recommendation is an
  integer between 0 and 100, the action is one of the five labels, and neither counter
  leaves the range from 0 to 7.
\<close>

theorem recommendation_bounded:
  "0 \<le> rec_confidence (generate_recommendation res)
   \<and> rec_confidence (generate_recommendation res) \<le> 100
   \<and> (rec_action (generate_recommendation res) = ''Strong Buy''
      \<or> rec_action (generate_recommendation res) = ''Buy''
      \<or> rec_action (generate_recommendation res) = ''Hold''
      \<or> rec_action (generate_recommendation res) = ''Sell''
      \<or> rec_action (generate_recommendation res) = ''Strong Sell'')
   \<and> 0 \<le> fst (signal_counts res) \<and> fst (signal_counts res) \<le> 7
   \<and> 0 \<le> snd (signal_counts res) \<and> snd (signal_counts res) \<le> 7"
proof -
  obtain b s where bs: "signal_counts res = (b, s)" by (cases "signal_counts res")
  have bnd: "0 \<le> b \<and> b \<le> 7 \<and> 0 \<le> s \<and> s \<le> 6"
    using signal_counts_bounds [of res] bs by simp
  show ?thesis
    using bnd by (simp add: generate_recommendation_def bs min_def)
qed

subsection \<open>Candlestick patterns\<close>

lemma fold_append_concat:
  "fold (\<lambda>i acc. acc @ g i) js acc0 = acc0 @ concat (map g js)"
  by (induction js arbitrary: acc0) simp_all

lemma all_patterns_concat:
  "all_patterns bs = concat (map (\<lambda>i. bar_patterns (bs ! (i - 1)) (bs ! i)) [2..<length bs])"
  by (simp add: all_patterns_def fold_append_concat)

lemma bar_patterns_date: "e \<in> set (bar_patterns prev cur) \<Longrightarrow> pe_date e = Date cur"
  by (auto simp add: bar_patterns_def Let_def pattern_event_def split: if_splits)

lemma bar_patterns_engulfing:
  "e1 \<in> set (bar_patterns prev cur) \<Longrightarrow> e2 \<in> set (bar_patterns prev cur) \<Longrightarrow>
   pe_pattern e1 = ''Bullish Engulfing'' \<Longrightarrow> pe_pattern e2 \<noteq> ''Bearish Engulfing''"
  by (auto simp add: bar_patterns_def Let_def pattern_event_def split: if_splits)

lemma set_last_n: "set (last_n k xs) \<subseteq> set xs"
  by (simp add: last_n_def set_drop_subset)

lemma detected_from_bar:
  assumes "e \<in> set (detect_candlestick_patterns f)"
  shows "\<exists>i. 2 \<le> i \<and> i < length (rows f) \<and> e \<in> set (bar_patterns (rows f ! (i - 1)) (rows f ! i))"
proof -
  have "e \<in> set (all_patterns (rows f))"
    using assms set_last_n [of 10 "all_patterns (rows f)"]
    unfolding detect_candlestick_patterns_def by blast
  then show ?thesis
    by (auto simp add: all_patterns_concat)
qed

text \<open>
  C7: the loop body never appends both a \<open>Bullish Engulfing\<close> and a
  \<open>Bearish Engulfing\<close> event for one bar; and in a frame whose dates are distinct, so
  that the date of an event names its bar, the detector never returns the two events with
  the same date.
\<close>

theorem engulfing_exclusive:
  "(e1 \<in> set (bar_patterns prev cur) \<and> e2 \<in> set (bar_patterns prev cur)
      \<and> pe_pattern e1 = ''Bullish Engulfing'' \<longrightarrow> pe_pattern e2 \<noteq> ''Bearish Engulfing'')
   \<and> (distinct (map Date (rows f))
      \<and> d1 \<in> set (detect_candlestick_patterns f) \<and> d2 \<in> set (detect_candlestick_patterns f)
      \<and> pe_pattern d1 = ''Bullish Engulfing'' \<and> pe_pattern d2 = ''Bearish Engulfing''
      \<longrightarrow> pe_date d1 \<noteq> pe_date d2)"
proof (intro conjI impI)
  assume "e1 \<in> set (bar_patterns prev cur) \<and> e2 \<in> set (bar_patterns prev cur)
      \<and> pe_pattern e1 = ''Bullish Engulfing''"
  then show "pe_pattern e2 \<noteq> ''Bearish Engulfing''"
    using bar_patterns_engulfing by blast
next
  assume a: "distinct (map Date (rows f))
      \<and> d1 \<in> set (detect_candlestick_patterns f) \<and> d2 \<in> set (detect_candlestick_patterns f)
      \<and> pe_pattern d1 = ''Bullish Engulfing'' \<and> pe_pattern d2 = ''Bearish Engulfing''"
  obtain i where i: "i < length (rows f)" "d1 \<in> set (bar_patterns (rows f ! (i - 1)) (rows f ! i))"
    using a detected_from_bar by blast
  obtain j where j: "j < length (rows f)" "d2 \<in> set (bar_patterns (rows f ! (j - 1)) (rows f ! j))"
    using a detected_from_bar by blast
  show "pe_date d1 \<noteq> pe_date d2"
  proof
    assume eq: "pe_date d1 = pe_date d2"
    have "Date (rows f ! i) = Date (rows f ! j)"
      using eq bar_patterns_date [OF i(2)] bar_patterns_date [OF j(2)] by simp
    then have "map Date (rows f) ! i = map Date (rows f) ! j"
      using i(1) j(1) by simp
    moreover have "distinct (map Date (rows f))" using a by simp
    ultimately have "i = j"
      using i(1) j(1) by (metis length_map nth_eq_iff_index_eq)
    then show False
      using bar_patterns_engulfing [OF i(2)] j(2) a by auto
  qed
qed

lemma demo_patterns:
  "detect_candlestick_patterns (input_frame demo_bars) =
     [pattern_event 3 ''Bullish Engulfing'' ''Bullish'' ''Strong bullish reversal signal'',
      pattern_event 4 ''Bearish Engulfing'' ''Bearish'' ''Strong bearish reversal signal'']"
  by (simp add: detect_candlestick_patterns_def all_patterns_concat input_frame_def demo_bars_def
        bar_patterns_def last_n_def Let_def)

theorem engulfing_exclusive_witness:
  "pe_date (pattern_event 3 ''Bullish Engulfing'' ''Bullish'' ''Strong bullish reversal signal'')
     \<noteq> pe_date (pattern_event 4 ''Bearish Engulfing'' ''Bearish'' ''Strong bearish reversal signal'')
   \<and> pattern_event 3 ''Bullish Engulfing'' ''Bullish'' ''Strong bullish reversal signal''
        \<in> set (detect_candlestick_patterns (input_frame demo_bars))
   \<and> pattern_event 4 ''Bearish Engulfing'' ''Bearish'' ''Strong bearish reversal signal''
        \<in> set (detect_candlestick_patterns (input_frame demo_bars))
   \<and> distinct (map Date (rows (input_frame demo_bars)))"
proof -
  have d: "distinct (map Date (rows (input_frame demo_bars)))"
    by (simp add: input_frame_def demo_bars_def)
  show ?thesis
    using engulfing_exclusive [of
        "pattern_event 3 ''Bullish Engulfing'' ''Bullish'' ''Strong bullish reversal signal''"
        "demo_bars ! 1" "demo_bars ! 2"
        "pattern_event 3 ''Bullish Engulfing'' ''Bullish'' ''Strong bullish reversal signal''"
        "input_frame demo_bars"
        "pattern_event 3 ''Bullish Engulfing'' ''Bullish'' ''Strong bullish reversal signal''"
        "pattern_event 4 ''Bearish Engulfing'' ''Bearish'' ''Strong bearish reversal signal''"]
      d
    by (simp add: demo_patterns pattern_event_def)
qed

subsection \<open>Clustering of levels\<close>

lemma expo_numeral:
  "expo (numeral k) x =
     (if 2 \<le> x then expo (pred_numeral k) (x / 2) + 1
      else if x < 1 then expo (pred_numeral k) (2 * x) - 1
      else 0)"
  by (simp add: numeral_eq_Suc)

lemmas b64_eval = b64_def Let_def expo_numeral round_half_even_def

lemma np_mean_single: "b64 a = a \<Longrightarrow> np_mean [a] = a"
  by (simp add: np_mean_def np_sum_def)

lemma separated_sorted: "separated t xs \<Longrightarrow> sorted xs"
proof (induction t xs rule: separated.induct)
  case (3 t a b rest)
  then have "sorted (b # rest)" and "a \<le> b" by simp_all
  then show ?case by auto
qed simp_all

lemma cluster_loop_fixed:
  "separated t (a # rest) \<Longrightarrow> list_all (\<lambda>y. b64 y = y) (a # rest)
   \<Longrightarrow> cluster_loop t [a] rest = a # rest"
  by (induction rest arbitrary: a) (simp_all add: np_mean_single)

lemma cluster_levels_tol_fixed:
  assumes "separated t xs" "list_all (\<lambda>y. b64 y = y) xs"
  shows "cluster_levels_tol t xs = xs"
proof (cases xs)
  case Nil
  then show ?thesis by (simp add: cluster_levels_tol_def)
next
  case (Cons a rest)
  have "sort xs = xs" using separated_sorted [OF assms(1)] by (simp add: sort_key_id_if_sorted)
  then show ?thesis
    using Cons assms cluster_loop_fixed [of t a rest] by (simp add: cluster_levels_tol_def Let_def)
qed

lemma cluster_ex7: "cluster_levels ex7 = [1, 4593671619917905 / 4503599627370496]"
  by (simp add: cluster_levels_def cluster_levels_tol_def ex7_def np_mean_def np_sum_def
        near_mean_def b64_eval del: expo.simps)

lemma cluster_ex7_again:
  "cluster_levels [1, 4593671619917905 / 4503599627370496] = [568579452955525 / 562949953421312]"
  by (simp add: cluster_levels_def cluster_levels_tol_def np_mean_def np_sum_def
        near_mean_def b64_eval del: expo.simps)

text \<open>
  C5 (as stated, refuted): the candidates 1.0 and six times 1.02 are clustered to 1.0 and
  1.0199999999999998, the sum of the six rounding down; clustered again, the two levels
  are within the tolerance and merge into 1.0099999999999998.
\<close>

theorem cluster_rounding_counterexample:
  "cluster_levels (cluster_levels ex7) \<noteq> cluster_levels ex7"
  by (simp add: cluster_ex7 cluster_ex7_again)

text \<open>
  C5 (amended): the clustering leaves unchanged every list of float levels that is in
  ascending order with no level within the tolerance of the one before it; so clustering
  the output of \<open>cluster_levels\<close> once more gives the same list whenever that output is
  such a list, which the rounding of the means does not guarantee.
\<close>

theorem cluster_levels_fixed_on_separated:
  "(separated (b64 (2 / 100)) ys \<and> list_all (\<lambda>y. b64 y = y) ys \<longrightarrow> cluster_levels ys = ys)
   \<and> (separated (b64 (2 / 100)) (cluster_levels xs)
       \<and> list_all (\<lambda>y. b64 y = y) (cluster_levels xs)
       \<longrightarrow> cluster_levels (cluster_levels xs) = cluster_levels xs)"
  using cluster_levels_tol_fixed [of "b64 (2 / 100)"] by (simp add: cluster_levels_def)

lemma ex2_shape:
  "separated (b64 (2 / 100)) ex2" "list_all (\<lambda>y. b64 y = y) ex2"
  by (simp_all add: ex2_def near_mean_def b64_eval del: expo.simps)

theorem cluster_levels_fixed_on_separated_witness:
  "separated (b64 (2 / 100)) ex2 \<and> list_all (\<lambda>y. b64 y = y) ex2
   \<and> cluster_levels ex2 = ex2 \<and> cluster_levels (cluster_levels ex2) = cluster_levels ex2"
proof -
  have a: "cluster_levels ex2 = ex2"
    using ex2_shape cluster_levels_fixed_on_separated [of ex2 ex2] by blast
  then have "separated (b64 (2 / 100)) (cluster_levels ex2)"
      "list_all (\<lambda>y. b64 y = y) (cluster_levels ex2)"
    using ex2_shape by simp_all
  then have "cluster_levels (cluster_levels ex2) = cluster_levels ex2"
    using cluster_levels_fixed_on_separated [of ex2 ex2] by blast
  then show ?thesis using a ex2_shape by simp
qed

subsection \<open>Lengths of the columns\<close>

lemma length_diff_from: "length (diff_from p xs) = length xs"
  by (induction xs arbitrary: p) simp_all

lemma length_diff: "length (diff xs) = length xs"
  by (cases xs) (simp_all add: length_diff_from)

lemma length_rolling_mean: "length (rolling_mean w xs) = length xs"
  by (simp add: rolling_mean_def)

lemma length_rolling_std: "length (rolling_std w xs) = length xs"
  by (simp add: rolling_std_def)

lemma length_ewm_from: "length (ewm_from a p xs) = length xs"
  by (induction xs arbitrary: p) (simp_all add: Let_def)

lemma length_ewm_mean: "length (ewm_mean n xs) = length xs"
  by (cases xs) (simp_all add: length_ewm_from)

lemma length_rsi_gain: "length (rsi_gain p cs) = length cs"
  by (simp add: rsi_gain_def length_rolling_mean length_diff)

lemma length_rsi_loss: "length (rsi_loss p cs) = length cs"
  by (simp add: rsi_loss_def length_rolling_mean length_diff)

lemma length_rsi_series: "length (rsi_series p cs) = length cs"
  by (simp add: rsi_series_def Let_def length_rsi_gain length_rsi_loss)

subsection \<open>Rolling means of finite values\<close>

lemma fl_sum_Fin: "fl_sum (map Fin xs) = Fin (sum_list xs)"
  by (induction xs) (simp_all add: fl_sum_def)

lemma window_map: "window w (map f xs) i = map f (window w xs i)"
  by (simp add: window_def take_map drop_map)

lemma length_window: "w \<le> i + 1 \<Longrightarrow> i < length xs \<Longrightarrow> length (window w xs i) = w"
  by (auto simp add: window_def)

lemma rolling_mean_Fin_nth:
  assumes "i < length xs"
  shows "rolling_mean w (map Fin xs) ! i =
           (if i + 1 < w then NaN
            else fl_div (Fin (sum_list (window w xs i))) (Fin (real w)))"
proof -
  have "length (window w (map Fin xs) i) = w" if "\<not> i + 1 < w"
    using that assms by (simp add: length_window)
  then show ?thesis
    using assms by (simp add: rolling_mean_def fl_mean_def window_map fl_sum_Fin)
qed

lemma gains_column_from:
  "map (\<lambda>d. if fl_less (Fin 0) d then d else Fin 0) (diff_from p xs)
     = map Fin (map (\<lambda>d. case d of Fin x \<Rightarrow> (if 0 < x then x else 0) | _ \<Rightarrow> 0) (diff_from p xs))"
  by (induction xs arbitrary: p) simp_all

lemma gains_column:
  "map (\<lambda>d. if fl_less (Fin 0) d then d else Fin 0) (diff closes) = map Fin (gains closes)"
  by (cases closes) (simp_all add: gains_def gains_column_from)

lemma losses_column_from:
  "map (\<lambda>d. fl_neg (if fl_less d (Fin 0) then d else Fin 0)) (diff_from p xs)
     = map Fin (map (\<lambda>d. case d of Fin x \<Rightarrow> (if x < 0 then - x else 0) | _ \<Rightarrow> 0) (diff_from p xs))"
  by (induction xs arbitrary: p) simp_all

lemma losses_column:
  "map (\<lambda>d. fl_neg (if fl_less d (Fin 0) then d else Fin 0)) (diff closes) = map Fin (losses closes)"
  by (cases closes) (simp_all add: losses_def losses_column_from)

lemma length_gains: "length (gains cs) = length cs"
  by (simp add: gains_def length_diff)

lemma length_losses: "length (losses cs) = length cs"
  by (simp add: losses_def length_diff)

lemma gains_nonneg: "x \<in> set (gains cs) \<Longrightarrow> 0 \<le> x"
  by (auto simp add: gains_def split: fl.splits)

lemma losses_nonneg: "x \<in> set (losses cs) \<Longrightarrow> 0 \<le> x"
  by (auto simp add: losses_def split: fl.splits)

lemma sum_list_window_nonneg:
  fixes xs :: "real list"
  assumes "\<And>x. x \<in> set xs \<Longrightarrow> 0 \<le> x"
  shows "0 \<le> sum_list (window w xs i)"
proof -
  have h: "\<forall>x\<in>set (window w xs i). 0 \<le> x"
    using assms by (auto simp add: window_def dest!: in_set_takeD in_set_dropD)
  show ?thesis by (rule sum_list_nonneg) (use h in auto)
qed

lemma rsi_gain_nth:
  "i < length cs \<Longrightarrow> rsi_gain p cs ! i =
     (if i + 1 < p then NaN else fl_div (Fin (sum_list (window p (gains cs) i))) (Fin (real p)))"
  by (simp add: rsi_gain_def gains_column rolling_mean_Fin_nth length_gains)

lemma rsi_loss_nth:
  "i < length cs \<Longrightarrow> rsi_loss p cs ! i =
     (if i + 1 < p then NaN else fl_div (Fin (sum_list (window p (losses cs) i))) (Fin (real p)))"
  by (simp add: rsi_loss_def losses_column rolling_mean_Fin_nth length_losses)

lemma rsi_series_nth:
  "i < length cs \<Longrightarrow> rsi_series p cs ! i =
     fl_sub (Fin 100) (fl_div (Fin 100) (fl_add (Fin 1) (fl_div (rsi_gain p cs ! i) (rsi_loss p cs ! i))))"
  by (simp add: rsi_series_def Let_def length_rsi_gain length_rsi_loss)

text \<open>The value of the RSI from the two rolling means, case by case.\<close>

lemma rsi_of_means:
  assumes "0 \<le> g" "0 \<le> l"
  shows "fl_sub (Fin 100) (fl_div (Fin 100) (fl_add (Fin 1) (fl_div (Fin g) (Fin l)))) =
           (if l = 0 then (if g = 0 then NaN else Fin 100)
            else Fin (100 - 100 / (1 + g / l)))"
proof -
  have "1 + g / l \<noteq> 0" if "l \<noteq> 0"
  proof -
    have "0 \<le> g / l" using assms by simp
    then show ?thesis by linarith
  qed
  then show ?thesis
    using assms by (auto simp add: fl_sub_def)
qed

lemma rsi_of_means_range:
  assumes "0 \<le> g" "0 < l"
  shows "0 \<le> 100 - 100 / (1 + g / l) \<and> 100 - 100 / (1 + g / l) \<le> (100::real)"
proof -
  have q: "0 \<le> g / l" using assms by simp
  then have "1 \<le> 1 + g / l" by simp
  then have "100 / (1 + g / l) \<le> 100 / 1"
    by (intro divide_left_mono) simp_all
  moreover have "0 \<le> 100 / (1 + g / l)" using q by simp
  ultimately show ?thesis by simp
qed

lemma rsi_series_value:
  assumes "i < length cs" "p \<le> i + 1" "0 < p"
  shows "rsi_series p cs ! i =
           (if sum_list (window p (losses cs) i) = 0
            then (if sum_list (window p (gains cs) i) = 0 then NaN else Fin 100)
            else Fin (100 - 100 / (1 + sum_list (window p (gains cs) i) / sum_list (window p (losses cs) i))))"
proof -
  let ?g = "sum_list (window p (gains cs) i)"
  let ?l = "sum_list (window p (losses cs) i)"
  have g: "0 \<le> ?g / real p" using sum_list_window_nonneg [of "gains cs" p i] gains_nonneg by simp
  have l: "0 \<le> ?l / real p" using sum_list_window_nonneg [of "losses cs" p i] losses_nonneg by simp
  have "rsi_series p cs ! i =
          fl_sub (Fin 100) (fl_div (Fin 100) (fl_add (Fin 1) (fl_div (Fin (?g / real p)) (Fin (?l / real p)))))"
    using assms by (simp add: rsi_series_nth rsi_gain_nth rsi_loss_nth)
  also have "\<dots> = (if ?l / real p = 0 then (if ?g / real p = 0 then NaN else Fin 100)
                    else Fin (100 - 100 / (1 + (?g / real p) / (?l / real p))))"
    by (rule rsi_of_means [OF g l])
  finally show ?thesis using assms(3) by simp
qed

lemma rsi_series_early:
  assumes "i < length cs" "i + 1 < p"
  shows "rsi_series p cs ! i = NaN"
  using assms by (simp add: rsi_series_nth rsi_gain_nth fl_sub_def)

lemma rsi_series_range:
  assumes "i < length cs"
  shows "rsi_series p cs ! i = NaN
         \<or> (\<exists>x. rsi_series p cs ! i = Fin x \<and> 0 \<le> x \<and> x \<le> 100)"
proof (cases "i + 1 < p")
  case True
  then show ?thesis using assms rsi_series_early by simp
next
  case False
  show ?thesis
  proof (cases "p = 0")
    case True
    then have "rsi_gain p cs ! i = NaN" using assms by (simp add: rsi_gain_nth window_def)
    then show ?thesis using assms by (simp add: rsi_series_nth fl_sub_def)
  next
    case pos: False
    let ?g = "sum_list (window p (gains cs) i)"
    let ?l = "sum_list (window p (losses cs) i)"
    have g: "0 \<le> ?g" using sum_list_window_nonneg [of "gains cs" p i] gains_nonneg by simp
    have l: "0 \<le> ?l" using sum_list_window_nonneg [of "losses cs" p i] losses_nonneg by simp
    have v: "rsi_series p cs ! i =
           (if ?l = 0 then (if ?g = 0 then NaN else Fin 100)
            else Fin (100 - 100 / (1 + ?g / ?l)))"
      using rsi_series_value [of i cs p] assms False pos by simp
    show ?thesis
    proof (cases "?l = 0")
      case True
      then show ?thesis using v by simp
    next
      case False
      then have "0 < ?l" using l by simp
      then show ?thesis using v False rsi_of_means_range [OF g] by simp
    qed
  qed
qed

lemma diff_from_replicate: "diff_from c (replicate n c) = replicate n (Fin 0)"
  by (induction n) simp_all

lemma gains_replicate: "gains (replicate n c) = replicate n 0"
  by (cases n) (simp_all add: gains_def diff_from_replicate)

lemma losses_replicate: "losses (replicate n c) = replicate n 0"
  by (cases n) (simp_all add: losses_def diff_from_replicate)

lemma sum_list_window_zero: "sum_list (window w (replicate n (0::real)) i) = 0"
  by (simp add: window_def sum_list_replicate)

lemma rsi_series_flat: "i < n \<Longrightarrow> rsi_series p (replicate n c) ! i = NaN"
  using rsi_series_range [of i "replicate n c" p] rsi_series_value [of i "replicate n c" p]
    rsi_series_early [of i "replicate n c" p]
  by (cases "i + 1 < p"; cases "p = 0")
     (simp_all add: gains_replicate losses_replicate sum_list_window_zero rsi_series_nth rsi_gain_nth fl_sub_def)

subsection \<open>Range of the RSI\<close>

text \<open>
  C4 (as stated, refuted): on sixteen equal closes the RSI of the last bar, which is not
  among the first fourteen, is undefined: both rolling means are zero and their quotient
  is \<open>NaN\<close>.
\<close>

theorem rsi_flat_counterexample: "isna (rsi_series 14 flat16 ! 15)"
  using rsi_series_flat [of 15 16 14 100] by (simp add: flat16_def)

text \<open>
  C4 (amended): at every bar the RSI is undefined or lies between 0 and 100. It is
  undefined exactly at the first \<open>period - 1\<close> bars and at the bars whose window shows
  neither a gain nor a loss; where the rolling loss is zero and the rolling gain is not,
  it is exactly 100.
\<close>

theorem rsi_defined_or_bounded:
  assumes "i < length closes"
  shows "(rsi_series period closes ! i = NaN
          \<or> (\<exists>x. rsi_series period closes ! i = Fin x \<and> 0 \<le> x \<and> x \<le> 100))
       \<and> (0 < period \<longrightarrow>
            isna (rsi_series period closes ! i) =
              (i + 1 < period
               \<or> (rsi_gain period closes ! i = Fin 0 \<and> rsi_loss period closes ! i = Fin 0)))
       \<and> (rsi_loss period closes ! i = Fin 0 \<and> fl_less (Fin 0) (rsi_gain period closes ! i)
            \<longrightarrow> rsi_series period closes ! i = Fin 100)"
proof (intro conjI impI)
  show "rsi_series period closes ! i = NaN
          \<or> (\<exists>x. rsi_series period closes ! i = Fin x \<and> 0 \<le> x \<and> x \<le> 100)"
    using assms by (rule rsi_series_range)
next
  assume pos: "0 < period"
  show "isna (rsi_series period closes ! i) =
          (i + 1 < period
           \<or> (rsi_gain period closes ! i = Fin 0 \<and> rsi_loss period closes ! i = Fin 0))"
  proof (cases "i + 1 < period")
    case True
    then show ?thesis using assms rsi_series_early [of i closes period] by simp
  next
    case False
    then show ?thesis
      using assms pos rsi_series_value [of i closes period]
      by (simp add: rsi_gain_nth rsi_loss_nth)
  qed
next
  assume a: "rsi_loss period closes ! i = Fin 0 \<and> fl_less (Fin 0) (rsi_gain period closes ! i)"
  have late: "\<not> i + 1 < period"
    using a assms by (auto simp add: rsi_loss_nth)
  have pos: "0 < period"
  proof (rule ccontr)
    assume "\<not> 0 < period"
    then have "rsi_gain period closes ! i = NaN"
      using assms by (simp add: rsi_gain_nth window_def)
    then show False using a by simp
  qed
  show "rsi_series period closes ! i = Fin 100"
    using a assms late pos rsi_series_value [of i closes period]
    by (auto simp add: rsi_gain_nth rsi_loss_nth split: if_splits)
qed

lemma rising14_gain: "rsi_gain 14 rising14 ! 13 = Fin (13 / 14)"
  by (simp add: rsi_gain_nth rising14_def gains_def window_def)

lemma rising14_loss: "rsi_loss 14 rising14 ! 13 = Fin 0"
  by (simp add: rsi_loss_nth rising14_def losses_def window_def)

theorem rsi_defined_or_bounded_witness:
  "(13::nat) < length rising14 \<and> rsi_series 14 rising14 ! 13 = Fin 100
   \<and> \<not> isna (rsi_series 14 rising14 ! 13)"
  using rsi_defined_or_bounded [of 13 rising14 14] rising14_gain rising14_loss
  by (simp add: rising14_def)

subsection \<open>The constructor sorts a copy\<close>

lemma map_insort_key:
  "map g (insort_key (\<lambda>i. f (g i)) x xs) = insort_key f (g x) (map g xs)"
  by (induction xs) simp_all

lemma map_sort_key:
  "map g (sort_key (\<lambda>i. f (g i)) xs) = sort_key f (map g xs)"
  by (induction xs) (simp_all add: map_insort_key)

lemma insort_key_cong_set:
  "f x = h x \<Longrightarrow> (\<And>y. y \<in> set xs \<Longrightarrow> f y = h y) \<Longrightarrow> insort_key f x xs = insort_key h x xs"
  by (induction xs) simp_all

lemma sort_key_cong_set:
  "(\<And>y. y \<in> set xs \<Longrightarrow> f y = h y) \<Longrightarrow> sort_key f xs = sort_key h xs"
proof (induction xs)
  case Nil
  then show ?case by simp
next
  case (Cons x xs)
  have "sort_key f xs = sort_key h xs" using Cons by simp
  moreover have "insort_key f x (sort_key h xs) = insort_key h x (sort_key h xs)"
    using Cons.prems by (intro insort_key_cong_set) simp_all
  ultimately show ?case by simp
qed

lemma take_col_argsort:
  "take_col (argsort (map key xs)) xs = sort_key key xs"
proof -
  have "sort_key (\<lambda>i. map key xs ! i) [0..<length xs]
          = sort_key (\<lambda>i. key (xs ! i)) [0..<length xs]"
    by (rule sort_key_cong_set) simp
  then have "take_col (argsort (map key xs)) xs
          = map ((!) xs) (sort_key (\<lambda>i. key ((!) xs i)) [0..<length xs])"
    by (simp add: take_col_def argsort_def)
  also have "\<dots> = sort_key key (map ((!) xs) [0..<length xs])"
    by (rule map_sort_key)
  finally show ?thesis by (simp add: map_nth)
qed

lemma sort_values_Date_input:
  "sort_values_Date (input_frame bs) = input_frame (sort_key Date bs)"
  using take_col_argsort [of Date bs]
  by (simp add: sort_values_Date_def take_rows_def input_frame_def)

lemma rows_sort_values_Date: "rows (sort_values_Date f) = sort_key Date (rows f)"
  using take_col_argsort [of Date "rows f"]
  by (simp add: sort_values_Date_def take_rows_def)

lemma analyze_bars_eq:
  "analyze_bars bs = snd (calculate_all_indicators (input_frame (sort_key Date bs)))"
  by (simp add: analyze_bars_def analyze_def TechnicalIndicators_def alloc_def
        run_calculate_all_indicators_def sort_values_Date_input split_beta Let_def)

subsection \<open>The analysis of a frame with rows\<close>

lemma length_macd_line_of: "length (macd_line_of a b cs) = length cs"
  by (simp add: macd_line_of_def length_ewm_mean)

lemma length_macd_histogram_of: "length (macd_histogram_of a b c cs) = length cs"
  by (simp add: macd_histogram_of_def Let_def length_ewm_mean length_macd_line_of)

lemma length_fold_cross: "length (fold (macd_cross_step m s) js col) = length col"
  by (induction js arbitrary: col) (simp_all add: macd_cross_step_def)

lemma length_macd_cross: "length (macd_cross m s) = length m"
  by (simp add: macd_cross_def length_fold_cross)

lemma length_obv_loop: "length (obv_loop p bs acc) = length acc + length bs"
  by (induction bs arbitrary: p acc) simp_all

lemma length_obv_list: "bs \<noteq> [] \<Longrightarrow> length (obv_list bs) = length bs"
  by (cases bs) (simp_all add: obv_list_def length_obv_loop)

lemma iloc_last_Inr: "xs \<noteq> [] \<Longrightarrow> iloc_last xs = Inr (last xs)"
  by (simp add: iloc_last_def)

lemma nonempty_by_length: "length xs = length ys \<Longrightarrow> ys \<noteq> [] \<Longrightarrow> xs \<noteq> []"
  by auto

lemma find_support_resistance_Inr:
  "rows f \<noteq> [] \<Longrightarrow> \<exists>sr. find_support_resistance order f = Inr sr"
  by (simp add: find_support_resistance_def Let_def ebind_def iloc_last_def)

lemma find_support_resistance_rows:
  "rows f = rows g \<Longrightarrow> find_support_resistance order f = find_support_resistance order g"
  by (simp add: find_support_resistance_def)

lemma ebind_Inr: "ebind (Inr x) k = k x"
  by (simp add: ebind_def)

lemma column_Some: "column (Some c) = Inr c"
  by (simp add: column_def)

lemma analyze_volume_Inr:
  assumes "rows f \<noteq> []"
  shows "\<exists>f' v. analyze_volume f = (f', Inr v)
           \<and> rows f' = rows f \<and> RSI_Signal f' = RSI_Signal f \<and> MACD_Cross f' = MACD_Cross f
           \<and> BB_Width f' = BB_Width f \<and> BB_Signal f' = BB_Signal f
           \<and> vol_volume_trend v = volume_trend_of (rows f)"
proof -
  have a: "length (obv_list (rows f)) = length (rows f)"
    using assms by (rule length_obv_list)
  have b: "iloc_last (obv_list (rows f)) = Inr (last (obv_list (rows f)))"
    using a assms by (intro iloc_last_Inr) auto
  have c: "iloc_last (rolling_mean 20 (map (\<lambda>b. Fin (real_of_int (Volume b))) (rows f)))
             = Inr (last (rolling_mean 20 (map (\<lambda>b. Fin (real_of_int (Volume b))) (rows f))))"
    using assms by (intro iloc_last_Inr) (simp add: rolling_mean_def)
  have d: "iloc_last (map Volume (rows f)) = Inr (last (map Volume (rows f)))"
    using assms by (intro iloc_last_Inr) simp
  show ?thesis
    by (simp add: analyze_volume_def Let_def a b c d ebind_Inr column_Some volume_trend_of_def)
qed

lemma length_bb_signal_col: "length (bb_signal_col p k cs) = length cs"
  by (simp add: bb_signal_col_def Let_def length_rolling_mean length_rolling_std)

lemma signal_counts_extend:
  "signal_counts (results.extend r x) = signal_counts r"
  by (simp add: signal_counts_def results.defs)

lemma generate_recommendation_extend:
  "generate_recommendation (results.extend r x) = generate_recommendation r"
  by (simp add: generate_recommendation_def signal_counts_extend)

lemma extend_fields:
  "res_recommendation (results.extend r (analysis_result.fields x)) = x"
  "res_trend (results.extend r m) = res_trend r"
  "res_rsi (results.extend r m) = res_rsi r"
  "res_macd (results.extend r m) = res_macd r"
  "res_bollinger_bands (results.extend r m) = res_bollinger_bands r"
  "res_volume (results.extend r m) = res_volume r"
  by (simp_all add: results.defs analysis_result.defs)

text \<open>
  What \<open>calculate_all_indicators\<close> returns for a frame with at least one row: a result
  and never an exception, with the labels below.
\<close>

lemma calculate_all_indicators_Inr:
  assumes "rows f \<noteq> []"
  shows "\<exists>r. snd (calculate_all_indicators f) = Inr r
           \<and> res_recommendation r = generate_recommendation r
           \<and> res_trend r = trend_of (last (map Close (rows f)))
                              (last (rolling_mean 20 (map Fin (map Close (rows f)))))
                              (last (rolling_mean 50 (map Fin (map Close (rows f)))))
           \<and> rsi_value (res_rsi r) =
                (if \<not> isna (last (rsi_series 14 (map Close (rows f))))
                 then last (rsi_series 14 (map Close (rows f))) else Fin 0)
           \<and> rsi_interpretation (res_rsi r) = interpret_rsi (last (rsi_series 14 (map Close (rows f))))
           \<and> rsi_signal (res_rsi r) = last (map rsi_signal_of (rsi_series 14 (map Close (rows f))))
           \<and> macd_signal (res_macd r) =
                last (macd_cross (macd_line_of 12 26 (map Close (rows f)))
                        (ewm_mean 9 (macd_line_of 12 26 (map Close (rows f)))))
           \<and> bb_signal (res_bollinger_bands r) = last (bb_signal_col 20 2 (map Close (rows f)))
           \<and> vol_volume_trend (res_volume r) = volume_trend_of (rows f)"
proof -
  let ?cs = "map Close (rows f)"
  let ?f3 = "fst (calculate_bollinger_bands 20 2 (fst (calculate_macd 12 26 9 (fst (calculate_rsi 14 f)))))"
  have rows3: "rows ?f3 = rows f"
    by (simp add: calculate_bollinger_bands_def calculate_macd_def calculate_rsi_def Let_def)
  obtain sr where fs: "find_support_resistance 5 ?f3 = Inr sr"
    using find_support_resistance_Inr [of ?f3 5] rows3 assms by auto
  obtain f4 v where av: "analyze_volume ?f3 = (f4, Inr v)" "rows f4 = rows ?f3"
      "RSI_Signal f4 = RSI_Signal ?f3" "MACD_Cross f4 = MACD_Cross ?f3"
      "BB_Width f4 = BB_Width ?f3" "BB_Signal f4 = BB_Signal ?f3"
      "vol_volume_trend v = volume_trend_of (rows ?f3)"
    using analyze_volume_Inr [of ?f3] rows3 assms by auto
  have cols: "RSI_Signal ?f3 = Some (map rsi_signal_of (rsi_series 14 ?cs))"
      "MACD_Cross ?f3 = Some (macd_cross (macd_line_of 12 26 ?cs) (ewm_mean 9 (macd_line_of 12 26 ?cs)))"
      "BB_Signal ?f3 = Some (bb_signal_col 20 2 ?cs)"
      "\<exists>w. BB_Width ?f3 = Some w \<and> length w = length ?cs"
    by (simp_all add: calculate_bollinger_bands_def calculate_macd_def calculate_rsi_def Let_def
          bb_signal_col_def length_rolling_mean length_rolling_std)
  obtain w where w: "BB_Width ?f3 = Some w" "length w = length ?cs" using cols(4) by auto
  have cs: "?cs \<noteq> []" using assms by simp
  have ne: "?cs \<noteq> []" "rsi_series 14 ?cs \<noteq> []" "macd_line_of 12 26 ?cs \<noteq> []"
      "ewm_mean 9 (macd_line_of 12 26 ?cs) \<noteq> []" "macd_histogram_of 12 26 9 ?cs \<noteq> []"
      "rolling_mean 20 (map Fin ?cs) \<noteq> []" "rolling_mean 50 (map Fin ?cs) \<noteq> []"
      "rolling_std 20 ?cs \<noteq> []" "w \<noteq> []" "bb_signal_col 20 2 ?cs \<noteq> []"
      "macd_cross (macd_line_of 12 26 ?cs) (ewm_mean 9 (macd_line_of 12 26 ?cs)) \<noteq> []"
              apply (rule cs)
             apply (rule nonempty_by_length [OF _ cs], simp only: length_rsi_series)
            apply (rule nonempty_by_length [OF _ cs], simp only: length_macd_line_of)
           apply (rule nonempty_by_length [OF _ cs], simp only: length_ewm_mean length_macd_line_of)
          apply (rule nonempty_by_length [OF _ cs], simp only: length_macd_histogram_of)
         apply (rule nonempty_by_length [OF _ cs], simp only: length_rolling_mean length_map)
        apply (rule nonempty_by_length [OF _ cs], simp only: length_rolling_mean length_map)
       apply (rule nonempty_by_length [OF _ cs], simp only: length_rolling_std)
      apply (rule nonempty_by_length [OF _ cs], simp only: w(2))
     apply (rule nonempty_by_length [OF _ cs], simp only: length_bb_signal_col)
    apply (rule nonempty_by_length [OF _ cs], simp only: length_macd_cross length_macd_line_of)
    done
  have run: "snd (calculate_all_indicators f) =
               compile_results f4 (rsi_series 14 ?cs) (macd_line_of 12 26 ?cs)
                 (ewm_mean 9 (macd_line_of 12 26 ?cs)) (macd_histogram_of 12 26 9 ?cs)
                 (fst (snd (calculate_bollinger_bands 20 2 (fst (calculate_macd 12 26 9 (fst (calculate_rsi 14 f)))))))
                 (fst (snd (snd (calculate_bollinger_bands 20 2 (fst (calculate_macd 12 26 9 (fst (calculate_rsi 14 f))))))))
                 (snd (snd (snd (calculate_bollinger_bands 20 2 (fst (calculate_macd 12 26 9 (fst (calculate_rsi 14 f))))))))
                 sr v (detect_candlestick_patterns f4)"
    using fs av(1)
    by (simp add: calculate_all_indicators_def split_beta Let_def calculate_rsi_def calculate_macd_def)
  have comp: "\<exists>r. compile_results f4 (rsi_series 14 ?cs) (macd_line_of 12 26 ?cs)
                 (ewm_mean 9 (macd_line_of 12 26 ?cs)) (macd_histogram_of 12 26 9 ?cs)
                 up mid low sr v pats = Inr r
           \<and> res_recommendation r = generate_recommendation r
           \<and> res_trend r = trend_of (last ?cs) (last (rolling_mean 20 (map Fin ?cs)))
                              (last (rolling_mean 50 (map Fin ?cs)))
           \<and> rsi_value (res_rsi r) =
                (if \<not> isna (last (rsi_series 14 ?cs)) then last (rsi_series 14 ?cs) else Fin 0)
           \<and> rsi_interpretation (res_rsi r) = interpret_rsi (last (rsi_series 14 ?cs))
           \<and> rsi_signal (res_rsi r) = last (map rsi_signal_of (rsi_series 14 ?cs))
           \<and> macd_signal (res_macd r) =
                last (macd_cross (macd_line_of 12 26 ?cs) (ewm_mean 9 (macd_line_of 12 26 ?cs)))
           \<and> bb_signal (res_bollinger_bands r) = last (bb_signal_col 20 2 ?cs)
           \<and> vol_volume_trend (res_volume r) = volume_trend_of (rows f)"
    if "up \<noteq> []" "mid \<noteq> []" "low \<noteq> []" for up mid low pats
    using that ne
    by (simp add: compile_results_def Let_def ebind_Inr column_Some iloc_last_Inr
          av(2-7) cols(1-3) w(1) rows3
          generate_recommendation_extend extend_fields
          del: interpret_rsi.simps interpret_macd.simps)
  have bands: "fst (snd (calculate_bollinger_bands 20 2 (fst (calculate_macd 12 26 9 (fst (calculate_rsi 14 f)))))) \<noteq> []"
      "fst (snd (snd (calculate_bollinger_bands 20 2 (fst (calculate_macd 12 26 9 (fst (calculate_rsi 14 f))))))) \<noteq> []"
      "snd (snd (snd (calculate_bollinger_bands 20 2 (fst (calculate_macd 12 26 9 (fst (calculate_rsi 14 f))))))) \<noteq> []"
    using ne(6,8)
    by (simp_all add: calculate_bollinger_bands_def calculate_macd_def calculate_rsi_def Let_def)
  show ?thesis
    unfolding run using comp [OF bands] by blast
qed

subsection \<open>The analysis of a series of bars\<close>

lemma sort_key_idem: "sort_key f (sort_key f xs) = sort_key f xs"
  by (rule sort_key_id_if_sorted) (rule sorted_sort_key)

lemma rows_input_frame: "rows (input_frame bs) = bs"
  by (simp add: input_frame_def)

lemma analyze_bars_sorted: "analyze_bars (sort_key Date bs) = analyze_bars bs"
  by (simp add: analyze_bars_eq sort_key_idem)

lemma analyze_bars_Inr:
  assumes "bs \<noteq> []"
  shows "\<exists>r. analyze_bars bs = Inr r
           \<and> res_recommendation r = generate_recommendation r
           \<and> res_trend r = trend_of (last (map Close (sort_key Date bs)))
                              (last (rolling_mean 20 (map Fin (map Close (sort_key Date bs)))))
                              (last (rolling_mean 50 (map Fin (map Close (sort_key Date bs)))))
           \<and> rsi_value (res_rsi r) =
                (if \<not> isna (last (rsi_series 14 (map Close (sort_key Date bs))))
                 then last (rsi_series 14 (map Close (sort_key Date bs))) else Fin 0)
           \<and> rsi_interpretation (res_rsi r) =
                interpret_rsi (last (rsi_series 14 (map Close (sort_key Date bs))))
           \<and> rsi_signal (res_rsi r) =
                last (map rsi_signal_of (rsi_series 14 (map Close (sort_key Date bs))))
           \<and> macd_signal (res_macd r) =
                last (macd_cross (macd_line_of 12 26 (map Close (sort_key Date bs)))
                        (ewm_mean 9 (macd_line_of 12 26 (map Close (sort_key Date bs)))))
           \<and> bb_signal (res_bollinger_bands r) =
                last (bb_signal_col 20 2 (map Close (sort_key Date bs)))
           \<and> vol_volume_trend (res_volume r) = volume_trend_of (sort_key Date bs)"
proof -
  have "sort_key Date bs \<noteq> []"
    using assms by (metis length_sort length_0_conv)
  then have "rows (input_frame (sort_key Date bs)) \<noteq> []"
    by (simp add: rows_input_frame)
  from calculate_all_indicators_Inr [OF this] show ?thesis
    by (simp only: analyze_bars_eq rows_input_frame)
qed

text \<open>
  C2 (as stated, refuted): a series out of date order with a negative price and a negative
  volume, and a well-formed series of four bars, are both analysed to a result; neither
  call fails.
\<close>

theorem no_validation_counterexample:
  "\<not> isl (analyze_bars unsorted_bars) \<and> \<not> isl (analyze_bars demo_bars)"
proof -
  have "unsorted_bars \<noteq> []" by (simp add: unsorted_bars_def)
  then obtain r where "analyze_bars unsorted_bars = Inr r"
    using analyze_bars_Inr [of unsorted_bars] by blast
  moreover have "demo_bars \<noteq> []" by (simp add: demo_bars_def)
  then obtain r' where "analyze_bars demo_bars = Inr r'"
    using analyze_bars_Inr [of demo_bars] by blast
  ultimately show ?thesis by simp
qed

text \<open>
  C2 (amended): the engine validates nothing and has no typed errors. The constructor
  sorts the bars by date, so a series out of order is analysed as its arrangement by date;
  prices and volumes are not checked; and every series with at least one bar, however
  short, is analysed to a result.
\<close>

theorem analysis_returns_result:
  assumes "bs \<noteq> []"
  shows "\<not> isl (analyze_bars bs) \<and> analyze_bars bs = analyze_bars (sort_key Date bs)"
proof -
  obtain r where "analyze_bars bs = Inr r"
    using analyze_bars_Inr [OF assms] by blast
  then show ?thesis by (simp add: analyze_bars_sorted)
qed

theorem analysis_returns_result_witness:
  "unsorted_bars \<noteq> [] \<and> \<not> isl (analyze_bars unsorted_bars)
   \<and> analyze_bars unsorted_bars = analyze_bars (sort_key Date unsorted_bars)"
proof -
  have ne: "unsorted_bars \<noteq> []" by (simp add: unsorted_bars_def)
  show ?thesis using ne analysis_returns_result [OF ne] by blast
qed

subsection \<open>An undefined RSI in the result\<close>

lemma rsi_isna_iff:
  assumes "i < length cs" "0 < p"
  shows "isna (rsi_series p cs ! i) =
           (i + 1 < p \<or> (rsi_gain p cs ! i = Fin 0 \<and> rsi_loss p cs ! i = Fin 0))"
proof (cases "i + 1 < p")
  case True
  then show ?thesis using assms rsi_series_early [of i cs p] by simp
next
  case False
  then show ?thesis
    using assms rsi_series_value [of i cs p] by (simp add: rsi_gain_nth rsi_loss_nth)
qed

lemma last_rsi_series:
  "cs \<noteq> [] \<Longrightarrow> last (rsi_series p cs) = rsi_series p cs ! (length cs - 1)"
  using nonempty_by_length [of "rsi_series p cs" cs]
  by (simp add: last_conv_nth length_rsi_series)

lemma rsi_rising14: "last (rsi_series 14 rising14) = Fin 100"
proof -
  have len: "length rising14 = 14" by (simp add: rising14_def)
  then have ne: "rising14 \<noteq> []" by auto
  have "rsi_series 14 rising14 ! 13 = Fin 100"
    using len by (simp add: rsi_series_nth rising14_gain rising14_loss fl_sub_def)
  then show ?thesis
    using last_rsi_series [OF ne, of 14] len by simp
qed

lemma closes_bars14: "map Close (sort_key Date bars14) = rising14"
proof -
  have "sorted (map Date bars14)" by (simp add: bars14_def day_bar_def)
  then have "sort_key Date bars14 = bars14" by (rule sort_key_id_if_sorted)
  then show ?thesis by (simp add: bars14_def rising14_def day_bar_def)
qed

text \<open>
  C10 (as stated, refuted): a series of fourteen bars is shorter than \<open>period + 1\<close>, but
  the RSI of its last bar is defined: the result reports 100 and the text for an overbought
  market, not 0 and \<open>Insufficient data\<close>.
\<close>

theorem rsi_fourteen_bars_counterexample:
  "length bars14 < 14 + 1
   \<and> rsi_value (res_rsi (projr (analyze_bars bars14))) = Fin 100
   \<and> rsi_interpretation (res_rsi (projr (analyze_bars bars14))) = ''Overbought - Consider selling''"
proof -
  have ne: "bars14 \<noteq> []" by (simp add: bars14_def)
  obtain r where r: "analyze_bars bars14 = Inr r"
      "rsi_value (res_rsi r) =
         (if \<not> isna (last (rsi_series 14 (map Close (sort_key Date bars14))))
          then last (rsi_series 14 (map Close (sort_key Date bars14))) else Fin 0)"
      "rsi_interpretation (res_rsi r) =
         interpret_rsi (last (rsi_series 14 (map Close (sort_key Date bars14))))"
    using analyze_bars_Inr [OF ne] by blast
  have "length bars14 < 14 + 1" by (simp add: bars14_def)
  then show ?thesis using r by (simp add: closes_bars14 rsi_rising14)
qed

text \<open>
  C10 (amended): when the RSI of the latest bar is undefined, which is the case exactly
  when the series has fewer than \<open>period\<close> = 14 bars or the last window shows neither a
  gain nor a loss, the result reports the RSI value as the number 0 and the interpretation
  \<open>Insufficient data\<close>; a defined RSI is reported as it is, so a genuine 0 and missing
  data give the same value field.
\<close>

theorem rsi_missing_reported_as_zero:
  assumes "bs \<noteq> []"
  shows "\<exists>r. analyze_bars bs = Inr r
           \<and> (isna (last (rsi_series 14 (map Close (sort_key Date bs))))
                \<longrightarrow> rsi_value (res_rsi r) = Fin 0
                    \<and> rsi_interpretation (res_rsi r) = ''Insufficient data'')
           \<and> (\<not> isna (last (rsi_series 14 (map Close (sort_key Date bs))))
                \<longrightarrow> rsi_value (res_rsi r) = last (rsi_series 14 (map Close (sort_key Date bs))))
           \<and> isna (last (rsi_series 14 (map Close (sort_key Date bs)))) =
                (length bs < 14
                 \<or> (last (rsi_gain 14 (map Close (sort_key Date bs))) = Fin 0
                    \<and> last (rsi_loss 14 (map Close (sort_key Date bs))) = Fin 0))"
proof -
  let ?cs = "map Close (sort_key Date bs)"
  have len: "length ?cs = length bs" by simp
  have ne: "?cs \<noteq> []" using assms len by (metis length_0_conv)
  have i: "length ?cs - 1 < length ?cs" using assms by simp
  have g: "last (rsi_gain 14 ?cs) = rsi_gain 14 ?cs ! (length ?cs - 1)"
    using ne nonempty_by_length [of "rsi_gain 14 ?cs" ?cs]
    by (simp add: last_conv_nth length_rsi_gain)
  have l: "last (rsi_loss 14 ?cs) = rsi_loss 14 ?cs ! (length ?cs - 1)"
    using ne nonempty_by_length [of "rsi_loss 14 ?cs" ?cs]
    by (simp add: last_conv_nth length_rsi_loss)
  have "isna (rsi_series 14 ?cs ! (length ?cs - 1)) =
          (length ?cs - 1 + 1 < 14
           \<or> (rsi_gain 14 ?cs ! (length ?cs - 1) = Fin 0 \<and> rsi_loss 14 ?cs ! (length ?cs - 1) = Fin 0))"
    by (rule rsi_isna_iff [OF i]) simp
  moreover have "(length ?cs - 1 + 1 < 14) = (length bs < 14)"
    using ne len by (cases "length ?cs") simp_all
  ultimately have iff: "isna (last (rsi_series 14 ?cs)) =
      (length bs < 14 \<or> (last (rsi_gain 14 ?cs) = Fin 0 \<and> last (rsi_loss 14 ?cs) = Fin 0))"
    using last_rsi_series [OF ne, of 14] g l by simp
  obtain r where r: "analyze_bars bs = Inr r"
      "rsi_value (res_rsi r) =
         (if \<not> isna (last (rsi_series 14 ?cs)) then last (rsi_series 14 ?cs) else Fin 0)"
      "rsi_interpretation (res_rsi r) = interpret_rsi (last (rsi_series 14 ?cs))"
    using analyze_bars_Inr [OF assms] by blast
  show ?thesis
    using r iff by (intro exI [of _ r]) (cases "last (rsi_series 14 ?cs)"; simp)
qed

theorem rsi_missing_reported_as_zero_witness:
  "demo_bars \<noteq> [] \<and> length demo_bars < 14
   \<and> (\<exists>r. analyze_bars demo_bars = Inr r \<and> rsi_value (res_rsi r) = Fin 0
          \<and> rsi_interpretation (res_rsi r) = ''Insufficient data'')"
proof -
  have ne: "demo_bars \<noteq> []" by (simp add: demo_bars_def)
  have short: "length demo_bars < 14" by (simp add: demo_bars_def)
  show ?thesis
    using ne short rsi_missing_reported_as_zero [OF ne] by auto
qed

subsection \<open>Purity of the analysis\<close>

lemma analyze_eq:
  "analyze s d =
     (snd (calculate_all_indicators (sort_values_Date (s ! d))),
      s @ [s ! d, fst (calculate_all_indicators (sort_values_Date (s ! d)))])"
  by (simp add: analyze_def TechnicalIndicators_def alloc_def run_calculate_all_indicators_def
        split_beta Let_def nth_append list_update_append)

text \<open>
  C8: the result of an analysis is a function of the frame it is given and of nothing
  else; every frame that was in the store before the call, the input among them, is the
  same after it, because the engine works on a copy; and a second analysis of the same
  frame, run after the first, returns the same result in every field.
\<close>

theorem analysis_pure:
  assumes "d < length s"
  shows "fst (analyze (snd (analyze s d)) d) = fst (analyze s d)
         \<and> take (length s) (snd (analyze s d)) = s
         \<and> snd (analyze s d) ! d = s ! d
         \<and> fst (analyze s d) = snd (calculate_all_indicators (sort_values_Date (s ! d)))"
  using assms by (simp add: analyze_eq nth_append)

theorem analysis_pure_witness:
  "(0::nat) < length [input_frame demo_bars]
   \<and> fst (analyze (snd (analyze [input_frame demo_bars] 0)) 0) = fst (analyze [input_frame demo_bars] 0)
   \<and> snd (analyze [input_frame demo_bars] 0) ! 0 = input_frame demo_bars"
  using analysis_pure [of 0 "[input_frame demo_bars]"] by simp

subsection \<open>The recommendation against the rule of the specification\<close>

lemma trend_of_labels:
  "trend_of a b c = ''Strong Uptrend'' \<or> trend_of a b c = ''Uptrend''
   \<or> trend_of a b c = ''Strong Downtrend'' \<or> trend_of a b c = ''Downtrend''
   \<or> trend_of a b c = ''Sideways''"
  by (simp add: trend_of_def)

lemma up_down_labels:
  "\<not> str_in ''Downtrend'' ''Strong Uptrend''" "\<not> str_in ''Downtrend'' ''Uptrend''"
  "\<not> str_in ''Uptrend'' ''Strong Downtrend''" "\<not> str_in ''Uptrend'' ''Downtrend''"
  "\<not> str_in ''Uptrend'' ''Sideways''" "\<not> str_in ''Downtrend'' ''Sideways''"
  by (simp_all add: str_in_def sublist_Cons_right)

lemma trend_of_not_both:
  "\<not> (str_in ''Uptrend'' (trend_of a b c) \<and> str_in ''Downtrend'' (trend_of a b c))"
  using trend_of_labels [of a b c] up_down_labels by auto

lemma signal_counts_spec:
  "\<not> (str_in ''Uptrend'' (res_trend r) \<and> str_in ''Downtrend'' (res_trend r))
   \<Longrightarrow> signal_counts r = spec_scores r"
  by (auto simp add: signal_counts_def spec_scores_def Let_def)

lemma recommendation_spec_mapping:
  "signal_counts r = (b, s) \<Longrightarrow>
   (rec_action (generate_recommendation r), rec_confidence (generate_recommendation r))
     = spec_mapping b s"
  by (simp add: generate_recommendation_def spec_mapping_def spec_rules_def)

lemma str_in_second: "str_in x (a @ y @ b @ x @ c)"
proof -
  have "a @ y @ b @ x @ c = (a @ y @ b) @ x @ c" by simp
  then show ?thesis unfolding str_in_def by (metis sublist_appendI)
qed

lemma str_in_first: "str_in x (a @ x @ b)"
  by (simp add: str_in_def)

lemma recommendation_reason:
  assumes "signal_counts r = (b, s)"
  shows "(rec_action (generate_recommendation r) \<noteq> ''Hold''
            \<longrightarrow> str_in (show_int b) (rec_reason (generate_recommendation r))
                \<and> str_in (show_int s) (rec_reason (generate_recommendation r)))
         \<and> (rec_action (generate_recommendation r) = ''Hold''
            \<longrightarrow> rec_reason (generate_recommendation r) = ''Mixed signals - Wait for clearer trend'')"
  using assms str_in_first str_in_second
  by (simp add: generate_recommendation_def del: append.simps)

text \<open>The labels of a series of a single bar: nothing signals, and the action is Hold.\<close>

lemma one_bar_labels:
  "sort_key Date one_bar = one_bar"
  "last (map rsi_signal_of (rsi_series 14 (map Close one_bar))) = ''Neutral''"
  "last (macd_cross (macd_line_of 12 26 (map Close one_bar))
           (ewm_mean 9 (macd_line_of 12 26 (map Close one_bar)))) = ''Hold''"
  "last (bb_signal_col 20 2 (map Close one_bar)) = ''Neutral''"
  "trend_of (last (map Close one_bar)) (last (rolling_mean 20 (map Fin (map Close one_bar))))
     (last (rolling_mean 50 (map Fin (map Close one_bar)))) = ''Sideways''"
  "volume_trend_of one_bar = ''Decreasing''"
       apply (simp add: one_bar_def)
      apply (simp add: one_bar_def rsi_series_def rsi_gain_def rsi_loss_def rolling_mean_def
               Let_def fl_sub_def rsi_signal_of_def)
     apply (simp add: one_bar_def macd_line_of_def macd_cross_def)
    apply (simp add: one_bar_def bb_signal_col_def rolling_mean_def rolling_std_def Let_def
             fl_sub_def bb_signal_of_def)
   apply (simp add: one_bar_def rolling_mean_def trend_of_def)
  apply (simp add: one_bar_def volume_trend_of_def Let_def last_n_def fl_mean_def fl_sum_def)
  done

lemma one_bar_hold:
  "\<exists>r. analyze_bars one_bar = Inr r \<and> signal_counts r = (0, 0)
        \<and> rec_reason (res_recommendation r) = ''Mixed signals - Wait for clearer trend''"
proof -
  have ne: "one_bar \<noteq> []" by (simp add: one_bar_def)
  obtain r where r: "analyze_bars one_bar = Inr r"
      "res_recommendation r = generate_recommendation r"
      "res_trend r = ''Sideways''"
      "rsi_signal (res_rsi r) = ''Neutral''"
      "macd_signal (res_macd r) = ''Hold''"
      "bb_signal (res_bollinger_bands r) = ''Neutral''"
      "vol_volume_trend (res_volume r) = ''Decreasing''"
    using analyze_bars_Inr [OF ne] by (auto simp only: one_bar_labels)
  have c: "signal_counts r = (0, 0)"
    using r(3-7) up_down_labels by (simp add: signal_counts_def)
  have "rec_reason (generate_recommendation r) = ''Mixed signals - Wait for clearer trend''"
    using c by (simp add: generate_recommendation_def)
  then show ?thesis using r(1,2) c by auto
qed

text \<open>
  C1 (as stated, refuted): for a series of a single bar both counters are 0 and the action
  is Hold; the reason string of that branch is a fixed text that holds neither count.
\<close>

theorem hold_reason_counterexample:
  "\<not> str_in (show_int (fst (signal_counts (projr (analyze_bars one_bar)))))
        (rec_reason (res_recommendation (projr (analyze_bars one_bar))))"
proof -
  obtain r where r: "analyze_bars one_bar = Inr r" "signal_counts r = (0, 0)"
      "rec_reason (res_recommendation r) = ''Mixed signals - Wait for clearer trend''"
    using one_bar_hold by blast
  have "show_int 0 = ''0''"
    by code_simp
  then show ?thesis
    using r by (simp add: str_in_def sublist_Cons_right)
qed

text \<open>
  C1 (amended): for every analysed series the two counters, the action and the confidence
  are those of the reference definition of the specification; the reason string holds
  both counts whenever the action is not Hold, and is the fixed text
  \<open>Mixed signals - Wait for clearer trend\<close> when it is Hold.
\<close>

theorem recommendation_refines_spec:
  assumes "bs \<noteq> []"
  shows "\<exists>r. analyze_bars bs = Inr r
           \<and> signal_counts r = spec_scores r
           \<and> (rec_action (res_recommendation r), rec_confidence (res_recommendation r))
                = spec_mapping (fst (spec_scores r)) (snd (spec_scores r))
           \<and> (rec_action (res_recommendation r) \<noteq> ''Hold''
                \<longrightarrow> str_in (show_int (fst (spec_scores r))) (rec_reason (res_recommendation r))
                    \<and> str_in (show_int (snd (spec_scores r))) (rec_reason (res_recommendation r)))
           \<and> (rec_action (res_recommendation r) = ''Hold''
                \<longrightarrow> rec_reason (res_recommendation r) = ''Mixed signals - Wait for clearer trend'')"
proof -
  obtain r where r: "analyze_bars bs = Inr r"
      "res_recommendation r = generate_recommendation r"
      "res_trend r = trend_of (last (map Close (sort_key Date bs)))
                       (last (rolling_mean 20 (map Fin (map Close (sort_key Date bs)))))
                       (last (rolling_mean 50 (map Fin (map Close (sort_key Date bs)))))"
    using analyze_bars_Inr [OF assms] by blast
  have sc: "signal_counts r = spec_scores r"
    by (rule signal_counts_spec) (simp only: r(3) trend_of_not_both not_False_eq_True)
  have pair: "signal_counts r = (fst (spec_scores r), snd (spec_scores r))"
    using sc by simp
  note m = recommendation_spec_mapping [OF pair]
  note q = recommendation_reason [OF pair]
  show ?thesis
  proof (intro exI [of _ r] conjI)
    show "analyze_bars bs = Inr r" by (rule r(1))
    show "signal_counts r = spec_scores r" by (rule sc)
    show "(rec_action (res_recommendation r), rec_confidence (res_recommendation r))
            = spec_mapping (fst (spec_scores r)) (snd (spec_scores r))"
      unfolding r(2) by (rule m)
    show "rec_action (res_recommendation r) \<noteq> ''Hold''
            \<longrightarrow> str_in (show_int (fst (spec_scores r))) (rec_reason (res_recommendation r))
                \<and> str_in (show_int (snd (spec_scores r))) (rec_reason (res_recommendation r))"
      unfolding r(2) by (rule conjunct1 [OF q])
    show "rec_action (res_recommendation r) = ''Hold''
            \<longrightarrow> rec_reason (res_recommendation r) = ''Mixed signals - Wait for clearer trend''"
      unfolding r(2) by (rule conjunct2 [OF q])
  qed
qed

text \<open>The labels of two bars of which the second closes higher: the MACD line crosses up.\<close>

lemma two_bars_labels:
  "sort_key Date two_bars = two_bars"
  "last (map rsi_signal_of (rsi_series 14 (map Close two_bars))) = ''Neutral''"
  "last (macd_cross (macd_line_of 12 26 (map Close two_bars))
           (ewm_mean 9 (macd_line_of 12 26 (map Close two_bars)))) = ''Buy''"
  "last (bb_signal_col 20 2 (map Close two_bars)) = ''Neutral''"
  "trend_of (last (map Close two_bars)) (last (rolling_mean 20 (map Fin (map Close two_bars))))
     (last (rolling_mean 50 (map Fin (map Close two_bars)))) = ''Sideways''"
  "volume_trend_of two_bars = ''Decreasing''"
       apply (simp add: two_bars_def day_bar_def)
      apply (simp add: two_bars_def day_bar_def rsi_series_def rsi_gain_def rsi_loss_def
               rolling_mean_def Let_def fl_sub_def rsi_signal_of_def)
     apply (simp add: two_bars_def day_bar_def macd_line_of_def macd_cross_def
              macd_cross_step_def Let_def)
    apply (simp add: two_bars_def day_bar_def bb_signal_col_def rolling_mean_def rolling_std_def
             Let_def fl_sub_def bb_signal_of_def)
   apply (simp add: two_bars_def day_bar_def rolling_mean_def trend_of_def)
  apply (simp add: two_bars_def day_bar_def volume_trend_of_def Let_def last_n_def fl_mean_def
           fl_sum_def)
  done

lemma two_bars_buy:
  "\<exists>r. analyze_bars two_bars = Inr r \<and> signal_counts r = (2, 0)
        \<and> rec_action (res_recommendation r) = ''Buy''
        \<and> rec_confidence (res_recommendation r) = 24"
proof -
  have ne: "two_bars \<noteq> []" by (simp add: two_bars_def)
  obtain r where r: "analyze_bars two_bars = Inr r"
      "res_recommendation r = generate_recommendation r"
      "res_trend r = ''Sideways''"
      "rsi_signal (res_rsi r) = ''Neutral''"
      "macd_signal (res_macd r) = ''Buy''"
      "bb_signal (res_bollinger_bands r) = ''Neutral''"
      "vol_volume_trend (res_volume r) = ''Decreasing''"
    using analyze_bars_Inr [OF ne] by (auto simp only: two_bars_labels)
  have c: "signal_counts r = (2, 0)"
    using r(3-7) up_down_labels by (simp add: signal_counts_def)
  have "rec_action (generate_recommendation r) = ''Buy''
        \<and> rec_confidence (generate_recommendation r) = 24"
    using c by (simp add: generate_recommendation_def)
  then show ?thesis using r(1,2) c by auto
qed

theorem recommendation_refines_spec_witness:
  "two_bars \<noteq> []
   \<and> (\<exists>r. analyze_bars two_bars = Inr r
        \<and> rec_action (res_recommendation r) = ''Buy'' \<and> rec_confidence (res_recommendation r) = 24
        \<and> spec_scores r = (2, 0) \<and> spec_mapping 2 0 = (''Buy'', 24)
        \<and> str_in (show_int 2) (rec_reason (res_recommendation r))
        \<and> str_in (show_int 0) (rec_reason (res_recommendation r)))"
proof -
  have ne: "two_bars \<noteq> []" by (simp add: two_bars_def)
  obtain r where r: "analyze_bars two_bars = Inr r" "signal_counts r = (2, 0)"
      "rec_action (res_recommendation r) = ''Buy''" "rec_confidence (res_recommendation r) = 24"
    using two_bars_buy by blast
  obtain r' where r': "analyze_bars two_bars = Inr r'" "signal_counts r' = spec_scores r'"
      "(rec_action (res_recommendation r'), rec_confidence (res_recommendation r'))
         = spec_mapping (fst (spec_scores r')) (snd (spec_scores r'))"
      "rec_action (res_recommendation r') \<noteq> ''Hold''
         \<longrightarrow> str_in (show_int (fst (spec_scores r'))) (rec_reason (res_recommendation r'))
             \<and> str_in (show_int (snd (spec_scores r'))) (rec_reason (res_recommendation r'))"
    using recommendation_refines_spec [OF ne] by blast
  have eq: "r' = r" using r(1) r'(1) by simp
  have s: "spec_scores r = (2, 0)" using r(2) r'(2) eq by simp
  have m: "spec_mapping 2 0 = (''Buy'', 24)" using r'(3) r(3,4) s eq by simp
  have "str_in (show_int 2) (rec_reason (res_recommendation r))
        \<and> str_in (show_int 0) (rec_reason (res_recommendation r))"
    using r'(4) r(3) s eq by simp
  then show ?thesis using ne r s m by blast
qed

subsection \<open>MACD on rising closes\<close>


lemma length_macd_cross_step: "length (macd_cross_step m s k col) = length col"
  by (simp add: macd_cross_step_def)















lemma steps_grow_sorted: "steps_grow d c xs \<Longrightarrow> 0 \<le> d \<Longrightarrow> sorted (c # xs)"
proof (induction xs arbitrary: d c)
  case Nil
  then show ?case by simp
next
  case (Cons x xs)
  then have "sorted (x # xs)" and "c \<le> x" by (auto intro: Cons.IH [of "x - c" x])
  then show ?case by auto
qed



end
